theory Spec2Isabelle
  imports Complex_Main "HOL-Library.Word"
begin

unbundle bit_operations_syntax

section \<open>Text, values and failures\<close>

text \<open>
  The server is one TypeScript module: it creates an \<open>McpServer\<close>, registers tools, a
  resource and a prompt on it, each with a schema and an asynchronous handler, and connects
  the server to a standard-input/output transport.

  Text is modelled as a \<open>string\<close> holding its UTF-8 bytes, the encoding of the source file
  and of the transport. A literal of the source outside ASCII is written byte by byte and
  named after what it says. Concatenating encodings is the encoding of the concatenation, so
  a template literal is a chain of \<open>@\<close>.
\<close>

definition annyeonghaseyo :: string where
  \<comment> \<open>the Korean salutation, romanised annyeonghaseyo: U+C548 U+B155 U+D558 U+C138 U+C694\<close>
  "annyeonghaseyo =
     [CHR 0xEC, CHR 0x95, CHR 0x88, CHR 0xEB, CHR 0x85, CHR 0x95, CHR 0xED, CHR 0x95, CHR 0x98,
       CHR 0xEC, CHR 0x84, CHR 0xB8, CHR 0xEC, CHR 0x9A, CHR 0x94]"

definition nim :: string where
  \<comment> \<open>the Korean honorific suffix, romanised nim: U+B2D8\<close>
  "nim =
     [CHR 0xEB, CHR 0x8B, CHR 0x98]"

definition smile :: string where
  \<comment> \<open>U+1F60A, smiling face with smiling eyes\<close>
  "smile =
     [CHR 0xF0, CHR 0x9F, CHR 0x98, CHR 0x8A]"

definition wave :: string where
  \<comment> \<open>U+1F44B, waving hand\<close>
  "wave =
     [CHR 0xF0, CHR 0x9F, CHR 0x91, CHR 0x8B]"

definition konnichiwa :: string where
  \<comment> \<open>the Japanese salutation, romanised konnichiwa, and the ideographic comma U+3001\<close>
  "konnichiwa =
     [CHR 0xE3, CHR 0x81, CHR 0x93, CHR 0xE3, CHR 0x82, CHR 0x93, CHR 0xE3, CHR 0x81, CHR 0xAB,
       CHR 0xE3, CHR 0x81, CHR 0xA1, CHR 0xE3, CHR 0x81, CHR 0xAF, CHR 0xE3, CHR 0x80,
       CHR 0x81]"

definition san :: string where
  \<comment> \<open>the Japanese honorific suffix, romanised san, and the fullwidth exclamation mark U+FF01\<close>
  "san =
     [CHR 0xE3, CHR 0x81, CHR 0x95, CHR 0xE3, CHR 0x82, CHR 0x93, CHR 0xEF, CHR 0xBC, CHR 0x81]"

definition times_sign :: string where
  \<comment> \<open>U+00D7, multiplication sign\<close>
  "times_sign =
     [CHR 0xC3, CHR 0x97]"

definition division_sign :: string where
  \<comment> \<open>U+00F7, division sign\<close>
  "division_sign =
     [CHR 0xC3, CHR 0xB7]"

definition msg_divide_by_zero :: string where
  \<comment> \<open>in English: cannot divide by 0\<close>
  "msg_divide_by_zero =
     ''0'' @ [CHR 0xEC, CHR 0x9C, CHR 0xBC, CHR 0xEB, CHR 0xA1, CHR 0x9C] @ '' '' @ [CHR 0xEB,
       CHR 0x82, CHR 0x98, CHR 0xEB, CHR 0x88, CHR 0x8C] @ '' '' @ [CHR 0xEC, CHR 0x88,
       CHR 0x98] @ '' '' @ [CHR 0xEC, CHR 0x97, CHR 0x86, CHR 0xEC, CHR 0x8A, CHR 0xB5,
       CHR 0xEB, CHR 0x8B, CHR 0x88, CHR 0xEB, CHR 0x8B, CHR 0xA4]"

definition msg_unsupported_operation :: string where
  \<comment> \<open>in English: unsupported operation\<close>
  "msg_unsupported_operation =
     [CHR 0xEC, CHR 0xA7, CHR 0x80, CHR 0xEC, CHR 0x9B, CHR 0x90, CHR 0xED, CHR 0x95, CHR 0x98,
       CHR 0xEC, CHR 0xA7, CHR 0x80] @ '' '' @ [CHR 0xEC, CHR 0x95, CHR 0x8A, CHR 0xEB,
       CHR 0x8A, CHR 0x94] @ '' '' @ [CHR 0xEC, CHR 0x97, CHR 0xB0, CHR 0xEC, CHR 0x82,
       CHR 0xB0, CHR 0xEC, CHR 0x9E, CHR 0x85, CHR 0xEB, CHR 0x8B, CHR 0x88, CHR 0xEB,
       CHR 0x8B, CHR 0xA4]"

definition current_time :: string where
  \<comment> \<open>in English: current time\<close>
  "current_time =
     [CHR 0xED, CHR 0x98, CHR 0x84, CHR 0xEC, CHR 0x9E, CHR 0xAC] @ '' '' @ [CHR 0xEC,
       CHR 0x8B, CHR 0x9C, CHR 0xEA, CHR 0xB0, CHR 0x84]"

definition system_time_zone :: string where
  \<comment> \<open>in English: system time zone\<close>
  "system_time_zone =
     [CHR 0xEC, CHR 0x8B, CHR 0x9C, CHR 0xEC, CHR 0x8A, CHR 0xA4, CHR 0xED, CHR 0x85, CHR 0x9C]
       @ '' '' @ [CHR 0xEC, CHR 0x8B, CHR 0x9C, CHR 0xEA, CHR 0xB0, CHR 0x84, CHR 0xEB,
       CHR 0x8C, CHR 0x80]"

definition msg_token_not_set :: string where
  \<comment> \<open>in English: the HF_TOKEN environment variable is not set\<close>
  "msg_token_not_set =
     ''HF_TOKEN '' @ [CHR 0xED, CHR 0x99, CHR 0x98, CHR 0xEA, CHR 0xB2, CHR 0xBD, CHR 0xEB,
       CHR 0xB3, CHR 0x80, CHR 0xEC, CHR 0x88, CHR 0x98, CHR 0xEA, CHR 0xB0, CHR 0x80] @ '' ''
       @ [CHR 0xEC, CHR 0x84, CHR 0xA4, CHR 0xEC, CHR 0xA0, CHR 0x95, CHR 0xEB, CHR 0x90,
       CHR 0x98, CHR 0xEC, CHR 0xA7, CHR 0x80] @ '' '' @ [CHR 0xEC, CHR 0x95, CHR 0x8A,
       CHR 0xEC, CHR 0x95, CHR 0x98, CHR 0xEC, CHR 0x8A, CHR 0xB5, CHR 0xEB, CHR 0x8B,
       CHR 0x88, CHR 0xEB, CHR 0x8B, CHR 0xA4]"

definition msg_generation_failed :: string where
  \<comment> \<open>in English: an error occurred while generating the image\<close>
  "msg_generation_failed =
     [CHR 0xEC, CHR 0x9D, CHR 0xB4, CHR 0xEB, CHR 0xAF, CHR 0xB8, CHR 0xEC, CHR 0xA7, CHR 0x80]
       @ '' '' @ [CHR 0xEC, CHR 0x83, CHR 0x9D, CHR 0xEC, CHR 0x84, CHR 0xB1] @ '' '' @
       [CHR 0xEC, CHR 0xA4, CHR 0x91] @ '' '' @ [CHR 0xEC, CHR 0x98, CHR 0xA4, CHR 0xEB,
       CHR 0xA5, CHR 0x98, CHR 0xEA, CHR 0xB0, CHR 0x80] @ '' '' @ [CHR 0xEB, CHR 0xB0,
       CHR 0x9C, CHR 0xEC, CHR 0x83, CHR 0x9D, CHR 0xED, CHR 0x96, CHR 0x88, CHR 0xEC,
       CHR 0x8A, CHR 0xB5, CHR 0xEB, CHR 0x8B, CHR 0x88, CHR 0xEB, CHR 0x8B, CHR 0xA4]"

definition msg_unknown_error :: string where
  \<comment> \<open>in English: unknown error\<close>
  "msg_unknown_error =
     [CHR 0xEC, CHR 0x95, CHR 0x8C] @ '' '' @ [CHR 0xEC, CHR 0x88, CHR 0x98] @ '' '' @
       [CHR 0xEC, CHR 0x97, CHR 0x86, CHR 0xEB, CHR 0x8A, CHR 0x94] @ '' '' @ [CHR 0xEC,
       CHR 0x98, CHR 0xA4, CHR 0xEB, CHR 0xA5, CHR 0x98]"

text \<open>
  A handler either returns or throws. What is thrown is a value: an instance of \<open>Error\<close>
  with its message (every \<open>throw\<close> of the module is \<open>throw new Error(message)\<close>), or
  any other value, which is what the \<open>instanceof\<close> test of the image handler's
  \<open>catch\<close> block tells apart.
\<close>

datatype thrown = Error string | NonError

text \<open>
  Numbers are the runtime's: doubles, with the runtime's arithmetic and its conversion to
  text. The module only applies these operations, so the model takes them as a parameter
  over a type \<open>'n\<close> of numbers: \<open>num_is_zero\<close> is the comparison \<open>=== 0\<close> and
  \<open>num_to_string\<close> the conversion a template literal applies.
\<close>

record 'n numops =
  num_add :: "'n \<Rightarrow> 'n \<Rightarrow> 'n"
  num_sub :: "'n \<Rightarrow> 'n \<Rightarrow> 'n"
  num_mul :: "'n \<Rightarrow> 'n \<Rightarrow> 'n"
  num_div :: "'n \<Rightarrow> 'n \<Rightarrow> 'n"
  num_is_zero :: "'n \<Rightarrow> bool"
  num_to_string :: "'n \<Rightarrow> string"

text \<open>
  The arguments of a call arrive as a JSON object: a bag of named JSON values, where a
  missing name reads as \<open>undefined\<close>.
\<close>

datatype 'n json =
  JNull | JBool bool | JNum 'n | JStr string | JArr "'n json list" | JObj "(string \<times> 'n json) list"

type_synonym 'n arguments = "string \<rightharpoonup> 'n json"

text \<open>
  A tool returns content blocks, \<open>{type: 'text', text}\<close> or
  \<open>{type: 'image', data, mimeType}\<close>, and optional annotations; a prompt returns
  messages, each a role and a content block; a resource returns its contents, each
  \<open>{uri, mimeType, text}\<close>.
\<close>

datatype content = Text string | Image string string

record annotations =
  audience :: "string list"
  priority :: rat

datatype tool_result = ToolResult "content list" "annotations option"

datatype prompt_message = Message string content

datatype resource_contents = ResourceContents string string string

text \<open>
  The request of the image handler to the inference client, and the process state a handler
  can read while it runs: the clock (\<open>new Date()\<close>, in milliseconds since the epoch), the
  environment variable \<open>HF_TOKEN\<close>, the inference service (for a token and a request, the
  bytes of the image or what the call throws, the reading of the blob included) and the
  figures of \<open>process\<close>. Every handler is given this state explicitly, whether it reads it
  or not.
\<close>

record text_to_image_request =
  provider :: string
  model :: string
  inputs :: string
  num_inference_steps :: nat

record 'n world =
  clock :: int
  HF_TOKEN :: "string option"
  textToImage :: "string \<Rightarrow> text_to_image_request \<Rightarrow> thrown + 8 word list"
  nodeVersion :: string
  platform :: string
  uptime :: 'n
  memoryUsage :: "(string \<times> 'n) list"

section \<open>Schemas and calls\<close>

text \<open>
  The schema combinators the module uses. A parser reads one argument (\<open>None\<close> is
  \<open>undefined\<close>) and gives \<open>None\<close> when the value is rejected. \<open>z_optional\<close> accepts
  \<open>undefined\<close> as it is; \<open>z_default\<close> replaces \<open>undefined\<close> by the default and
  parses every other value with the inner schema.
\<close>

definition z_string :: "'n json option \<Rightarrow> string option" where
  "z_string v = (case v of Some (JStr s) \<Rightarrow> Some s | _ \<Rightarrow> None)"

definition z_number :: "'n json option \<Rightarrow> 'n option" where
  "z_number v = (case v of Some (JNum x) \<Rightarrow> Some x | _ \<Rightarrow> None)"

definition z_enum :: "string list \<Rightarrow> 'n json option \<Rightarrow> string option" where
  "z_enum values v =
     (case v of Some (JStr s) \<Rightarrow> if s \<in> set values then Some s else None | _ \<Rightarrow> None)"

definition z_optional :: "('n json option \<Rightarrow> 'a option) \<Rightarrow> 'n json option \<Rightarrow> 'a option option" where
  "z_optional inner v = (case v of None \<Rightarrow> Some None | Some x \<Rightarrow> map_option Some (inner (Some x)))"

definition z_default :: "'a \<Rightarrow> ('n json option \<Rightarrow> 'a option option) \<Rightarrow> 'n json option \<Rightarrow> 'a option" where
  "z_default d inner v =
     (case v of None \<Rightarrow> Some d
      | Some x \<Rightarrow> (case inner (Some x) of Some (Some y) \<Rightarrow> Some y | _ \<Rightarrow> None))"

text \<open>The names of the fields a schema rejected.\<close>

definition issues :: "(string \<times> bool) list \<Rightarrow> string list" where
  "issues checks = map fst (filter (\<lambda>(field, ok). \<not> ok) checks)"

text \<open>
  A call validates the arguments against the schema, then runs the handler on the parsed
  arguments: it fails with the rejected fields, or with what the handler threw.
\<close>

datatype failure = InvalidParams "string list" | Thrown thrown

definition call :: "('n arguments \<Rightarrow> string list + 'a) \<Rightarrow> ('a \<Rightarrow> thrown + 'r) \<Rightarrow> 'n arguments \<Rightarrow> failure + 'r" where
  "call schema handler args =
     (case schema args of
        Inl rejected \<Rightarrow> Inl (InvalidParams rejected)
      | Inr parsed \<Rightarrow> (case handler parsed of Inl e \<Rightarrow> Inl (Thrown e) | Inr r \<Rightarrow> Inr r))"

section \<open>The greeting tool\<close>

definition greeting_schema :: "'n arguments \<Rightarrow> string list + string \<times> string" where
  "greeting_schema args =
     (let name = z_string (args ''name'');
          language = z_default ''ko'' (z_optional (z_enum [''ko'', ''en'', ''ja''])) (args ''language'')
      in case (name, language) of
           (Some n, Some l) \<Rightarrow> Inr (n, l)
         | _ \<Rightarrow> Inl (issues [(''name'', name \<noteq> None), (''language'', language \<noteq> None)]))"

text \<open>
  The handler is a \<open>switch\<close> on the language with a \<open>default\<close> branch, then the return
  of one text block. The branch taken is kept apart from the text it builds.
\<close>

datatype greeting_case = CaseKo | CaseEn | CaseJa | CaseDefault

definition greeting_switch :: "string \<Rightarrow> greeting_case" where
  "greeting_switch language =
     (if language = ''ko'' then CaseKo
      else if language = ''en'' then CaseEn
      else if language = ''ja'' then CaseJa
      else CaseDefault)"

fun greeting_text :: "greeting_case \<Rightarrow> string \<Rightarrow> string" where
  "greeting_text CaseKo name = annyeonghaseyo @ '', '' @ name @ nim @ ''! '' @ smile"
| "greeting_text CaseEn name = ''Hello, '' @ name @ ''! '' @ wave"
| "greeting_text CaseJa name = konnichiwa @ name @ san @ '' '' @ smile"
| "greeting_text CaseDefault name = annyeonghaseyo @ '', '' @ name @ nim @ ''! '' @ smile"

definition greeting_handler :: "'n world \<Rightarrow> string \<times> string \<Rightarrow> thrown + tool_result" where
  "greeting_handler w = (\<lambda>(name, language).
     Inr (ToolResult [Text (greeting_text (greeting_switch language) name)] None))"

definition greeting :: "'n world \<Rightarrow> 'n arguments \<Rightarrow> failure + tool_result" where
  "greeting w = call greeting_schema (greeting_handler w)"

section \<open>The calculator tool\<close>

definition calculator_schema :: "'n arguments \<Rightarrow> string list + string \<times> 'n \<times> 'n" where
  "calculator_schema args =
     (let operation = z_enum [''add'', ''subtract'', ''multiply'', ''divide''] (args ''operation'');
          a = z_number (args ''a'');
          b = z_number (args ''b'')
      in case (operation, a, b) of
           (Some operation', Some a', Some b') \<Rightarrow> Inr (operation', a', b')
         | _ \<Rightarrow> Inl (issues [(''operation'', operation \<noteq> None), (''a'', a \<noteq> None), (''b'', b \<noteq> None)]))"

text \<open>
  The \<open>switch\<close> of the handler: the result and the printed symbol of the operation, or
  the error thrown by the division guard or by the \<open>default\<close> branch.
\<close>

definition calculator_switch :: "'n numops \<Rightarrow> string \<Rightarrow> 'n \<Rightarrow> 'n \<Rightarrow> thrown + 'n \<times> string" where
  "calculator_switch rt operation a b =
     (if operation = ''add'' then Inr (num_add rt a b, ''+'')
      else if operation = ''subtract'' then Inr (num_sub rt a b, ''-'')
      else if operation = ''multiply'' then Inr (num_mul rt a b, times_sign)
      else if operation = ''divide'' then
        (if num_is_zero rt b then Inl (Error msg_divide_by_zero)
         else Inr (num_div rt a b, division_sign))
      else Inl (Error msg_unsupported_operation))"

definition calculator_handler :: "'n numops \<Rightarrow> 'n world \<Rightarrow> string \<times> 'n \<times> 'n \<Rightarrow> thrown + tool_result" where
  "calculator_handler rt w = (\<lambda>(operation, a, b).
     case calculator_switch rt operation a b of
       Inl e \<Rightarrow> Inl e
     | Inr (result, operationSymbol) \<Rightarrow>
         Inr (ToolResult
           [Text (num_to_string rt a @ '' '' @ operationSymbol @ '' '' @ num_to_string rt b
                  @ '' = '' @ num_to_string rt result)]
           None))"

definition calculator :: "'n numops \<Rightarrow> 'n world \<Rightarrow> 'n arguments \<Rightarrow> failure + tool_result" where
  "calculator rt w = call calculator_schema (calculator_handler rt w)"

subsection \<open>The runtime's numbers on exact integers\<close>

text \<open>
  An instance of the number operations for concrete inputs. It follows the runtime on the
  integers of magnitude at most \<open>2 ^ 53\<close>: each of them is a double, zero of either sign is
  \<open>Integer 0\<close>, and a sum, difference, product or quotient of two of them that is again
  such an integer is computed without rounding and printed as its decimal numeral. Every
  other number, an operand or a result, is \<open>Untracked\<close>: it is not zero, and the instance
  says nothing more about it (its text here is a placeholder).
\<close>

datatype number = Integer int | Untracked

definition tracked :: "int \<Rightarrow> number" where
  "tracked i = (if \<bar>i\<bar> \<le> 2 ^ 53 then Integer i else Untracked)"

fun number_add :: "number \<Rightarrow> number \<Rightarrow> number" where
  "number_add (Integer a) (Integer b) = tracked (a + b)"
| "number_add _ _ = Untracked"

fun number_sub :: "number \<Rightarrow> number \<Rightarrow> number" where
  "number_sub (Integer a) (Integer b) = tracked (a - b)"
| "number_sub _ _ = Untracked"

fun number_mul :: "number \<Rightarrow> number \<Rightarrow> number" where
  "number_mul (Integer a) (Integer b) = tracked (a * b)"
| "number_mul _ _ = Untracked"

fun number_div :: "number \<Rightarrow> number \<Rightarrow> number" where
  "number_div (Integer a) (Integer b) =
     (if b \<noteq> 0 \<and> a mod b = 0 then tracked (a div b) else Untracked)"
| "number_div _ _ = Untracked"

fun number_is_zero :: "number \<Rightarrow> bool" where
  "number_is_zero (Integer a) = (a = 0)"
| "number_is_zero Untracked = False"

definition digit :: "nat \<Rightarrow> char" where
  "digit d = ''0123456789'' ! (d mod 10)"

fun decimal :: "nat \<Rightarrow> string" where
  "decimal n = (if n < 10 then [digit n] else decimal (n div 10) @ [digit (n mod 10)])"

declare decimal.simps [simp del]

fun number_to_string :: "number \<Rightarrow> string" where
  "number_to_string (Integer a) = (if a < 0 then ''-'' @ decimal (nat (- a)) else decimal (nat a))"
| "number_to_string Untracked = ''<untracked>''"

definition exact_integers :: "number numops" where
  "exact_integers =
     \<lparr>num_add = number_add, num_sub = number_sub, num_mul = number_mul, num_div = number_div,
      num_is_zero = number_is_zero, num_to_string = number_to_string\<rparr>"

section \<open>The time tool\<close>

subsection \<open>Time values and \<open>Date.prototype.toISOString\<close>\<close>

text \<open>
  A time value is a number of milliseconds since the epoch. The functions below are the
  ones the language standard defines on time values (ECMA-262, Time Values and Time
  Range, Day Number and Time within Day, Year Number, Month Number, Date Number, Hours,
  Minutes, Second, and Milliseconds), with the standard's names. The standard defines the
  year of a day as the largest \<open>y\<close> with \<open>DayFromYear y \<le> day\<close>; \<open>year_search\<close> finds
  it by stepping from an estimate.
\<close>

definition msPerDay :: int where
  "msPerDay = 86400000"

definition Day :: "int \<Rightarrow> int" where
  "Day t = t div msPerDay"

definition DaysInYear :: "int \<Rightarrow> int" where
  "DaysInYear y =
     (if y mod 4 \<noteq> 0 then 365
      else if y mod 100 \<noteq> 0 then 366
      else if y mod 400 \<noteq> 0 then 365
      else 366)"

definition DayFromYear :: "int \<Rightarrow> int" where
  "DayFromYear y = 365 * (y - 1970) + (y - 1969) div 4 - (y - 1901) div 100 + (y - 1601) div 400"

function year_search :: "int \<Rightarrow> int \<Rightarrow> int" where
  "year_search d y =
     (if DayFromYear (y + 1) \<le> d then year_search d (y + 1)
      else if d < DayFromYear y then year_search d (y - 1)
      else y)"
  by pat_completeness auto
termination
proof (relation "measure (\<lambda>(d, y). if DayFromYear y \<le> d then nat (d - DayFromYear y)
                                     else nat (DayFromYear y - d) + 367)")
  have step: "x div k \<le> (x + 1) div k \<and> (x + 1) div k \<le> x div k + 1" if "0 < k" for x k :: int
  proof
    show "x div k \<le> (x + 1) div k"
      using that by (intro zdiv_mono1) simp_all
    have "(x + 1) div k \<le> (x + k) div k"
      using that by (intro zdiv_mono1) simp_all
    moreover have "(x + k) div k = x div k + 1"
      using that by (simp add: div_add_self2)
    ultimately show "(x + 1) div k \<le> x div k + 1"
      by simp
  qed
  have year: "DayFromYear y < DayFromYear (y + 1) \<and> DayFromYear (y + 1) \<le> DayFromYear y + 367" for y
    using step [of 4 "y - 1969"] step [of 100 "y - 1901"] step [of 400 "y - 1601"]
    by (simp add: DayFromYear_def)
  {
    fix d y :: int
    assume "DayFromYear (y + 1) \<le> d"
    then show "((d, y + 1), (d, y)) \<in> measure (\<lambda>(d, y). if DayFromYear y \<le> d then nat (d - DayFromYear y)
                                     else nat (DayFromYear y - d) + 367)"
      using year [of y] by simp
  next
    fix d y :: int
    assume "\<not> DayFromYear (y + 1) \<le> d" and "d < DayFromYear y"
    then show "((d, y - 1), (d, y)) \<in> measure (\<lambda>(d, y). if DayFromYear y \<le> d then nat (d - DayFromYear y)
                                     else nat (DayFromYear y - d) + 367)"
      using year [of "y - 1"] by simp linarith
  }
qed simp

declare year_search.simps [simp del]

definition YearFromTime :: "int \<Rightarrow> int" where
  "YearFromTime t = year_search (Day t) (1970 + Day t div 365)"

definition InLeapYear :: "int \<Rightarrow> int" where
  "InLeapYear t = (if DaysInYear (YearFromTime t) = 366 then 1 else 0)"

definition DayWithinYear :: "int \<Rightarrow> int" where
  "DayWithinYear t = Day t - DayFromYear (YearFromTime t)"

definition MonthFromTime :: "int \<Rightarrow> int" where
  "MonthFromTime t =
     (let d = DayWithinYear t; leap = InLeapYear t
      in if d < 31 then 0
         else if d < 59 + leap then 1
         else if d < 90 + leap then 2
         else if d < 120 + leap then 3
         else if d < 151 + leap then 4
         else if d < 181 + leap then 5
         else if d < 212 + leap then 6
         else if d < 243 + leap then 7
         else if d < 273 + leap then 8
         else if d < 304 + leap then 9
         else if d < 334 + leap then 10
         else 11)"

definition DateFromTime :: "int \<Rightarrow> int" where
  "DateFromTime t =
     (let d = DayWithinYear t; leap = InLeapYear t; m = MonthFromTime t
      in if m = 0 then d + 1
         else if m = 1 then d - 30
         else if m = 2 then d - 58 - leap
         else if m = 3 then d - 89 - leap
         else if m = 4 then d - 119 - leap
         else if m = 5 then d - 150 - leap
         else if m = 6 then d - 180 - leap
         else if m = 7 then d - 211 - leap
         else if m = 8 then d - 242 - leap
         else if m = 9 then d - 272 - leap
         else if m = 10 then d - 303 - leap
         else d - 333 - leap)"

definition HourFromTime :: "int \<Rightarrow> int" where
  "HourFromTime t = (t div 3600000) mod 24"

definition MinFromTime :: "int \<Rightarrow> int" where
  "MinFromTime t = (t div 60000) mod 60"

definition SecFromTime :: "int \<Rightarrow> int" where
  "SecFromTime t = (t div 1000) mod 60"

definition msFromTime :: "int \<Rightarrow> int" where
  "msFromTime t = t mod 1000"

text \<open>
  \<open>pad k n\<close> is the numeral of \<open>n\<close> in \<open>k\<close> decimal digits, padded with zeros.
  \<open>toISOString\<close> renders a time value as \<open>YYYY-MM-DDTHH:mm:ss.sssZ\<close> in UTC, with the
  expanded year \<open>\<plusminus>YYYYYY\<close> outside the years 0 to 9999, and throws a \<open>RangeError\<close>
  outside the range of time values (a \<open>Date\<close> read from the clock is always inside).
\<close>

fun pad :: "nat \<Rightarrow> nat \<Rightarrow> string" where
  "pad 0 n = []"
| "pad (Suc k) n = pad k (n div 10) @ [digit n]"

definition year_string :: "int \<Rightarrow> string" where
  "year_string y =
     (if 0 \<le> y \<and> y \<le> 9999 then pad 4 (nat y)
      else (if y < 0 then ''-'' else ''+'') @ pad 6 (nat \<bar>y\<bar>))"

definition toISOString :: "int \<Rightarrow> thrown + string" where
  "toISOString t =
     (if \<bar>t\<bar> \<le> 8640000000000000 then
        Inr (year_string (YearFromTime t) @ ''-'' @ pad 2 (nat (MonthFromTime t + 1))
             @ ''-'' @ pad 2 (nat (DateFromTime t))
             @ ''T'' @ pad 2 (nat (HourFromTime t))
             @ '':'' @ pad 2 (nat (MinFromTime t))
             @ '':'' @ pad 2 (nat (SecFromTime t))
             @ ''.'' @ pad 3 (nat (msFromTime t)) @ ''Z'')
      else Inl (Error ''Invalid time value''))"

subsection \<open>The handler\<close>

text \<open>
  The localised renderings are the runtime's: for a time value, a locale, a time zone
  (\<open>None\<close> is the system's) and the other formatting options, a text, or the
  \<open>RangeError\<close> thrown for a time zone the runtime does not know.
\<close>

type_synonym locale_format = "int \<Rightarrow> string \<Rightarrow> string option \<Rightarrow> (string \<times> string) list \<Rightarrow> thrown + string"

record intl =
  toLocaleDateString :: locale_format
  toLocaleTimeString :: locale_format
  toLocaleString :: locale_format

definition get_time_schema :: "'n arguments \<Rightarrow> string list + string option \<times> string" where
  "get_time_schema args =
     (let timeZone = z_optional z_string (args ''timeZone'');
          format = z_default ''full'' (z_optional (z_enum [''full'', ''date'', ''time'', ''iso''])) (args ''format'')
      in case (timeZone, format) of
           (Some tz, Some f) \<Rightarrow> Inr (tz, f)
         | _ \<Rightarrow> Inl (issues [(''timeZone'', timeZone \<noteq> None), (''format'', format \<noteq> None)]))"

text \<open>
  \<open>timeZone || undefined\<close> and the test \<open>timeZone ? ... : ...\<close> take the empty string
  for an absent one.
\<close>

definition or_undefined :: "string option \<Rightarrow> string option" where
  "or_undefined timeZone = (case timeZone of Some tz \<Rightarrow> if tz = [] then None else Some tz | None \<Rightarrow> None)"

definition time_string :: "intl \<Rightarrow> int \<Rightarrow> string option \<Rightarrow> string \<Rightarrow> thrown + string" where
  "time_string rt now timeZone format =
     (if format = ''date'' then
        toLocaleDateString rt now ''ko-KR'' (or_undefined timeZone)
          [(''year'', ''numeric''), (''month'', ''long''), (''day'', ''numeric''), (''weekday'', ''long'')]
      else if format = ''time'' then
        toLocaleTimeString rt now ''ko-KR'' (or_undefined timeZone)
          [(''hour'', ''2-digit''), (''minute'', ''2-digit''), (''second'', ''2-digit''), (''hour12'', ''false'')]
      else if format = ''iso'' then toISOString now
      else
        toLocaleString rt now ''ko-KR'' (or_undefined timeZone)
          [(''year'', ''numeric''), (''month'', ''long''), (''day'', ''numeric''), (''weekday'', ''long''),
           (''hour'', ''2-digit''), (''minute'', ''2-digit''), (''second'', ''2-digit''), (''hour12'', ''false'')])"

definition time_zone_info :: "string option \<Rightarrow> string" where
  "time_zone_info timeZone =
     (case or_undefined timeZone of
        Some tz \<Rightarrow> '' ('' @ tz @ '')''
      | None \<Rightarrow> '' ('' @ system_time_zone @ '')'')"

definition get_time_handler :: "intl \<Rightarrow> 'n world \<Rightarrow> string option \<times> string \<Rightarrow> thrown + tool_result" where
  "get_time_handler rt w = (\<lambda>(timeZone, format).
     case time_string rt (clock w) timeZone format of
       Inl e \<Rightarrow> Inl e
     | Inr timeString \<Rightarrow>
         Inr (ToolResult [Text (current_time @ time_zone_info timeZone @ '': '' @ timeString)] None))"

definition get_time :: "intl \<Rightarrow> 'n world \<Rightarrow> 'n arguments \<Rightarrow> failure + tool_result" where
  "get_time rt w = call get_time_schema (get_time_handler rt w)"

subsection \<open>Well-formed timestamps\<close>

text \<open>
  The ISO 8601 calendar date and time in UTC, in the extended format with milliseconds:
  a year of four digits, or of six digits with a sign (and not \<open>-000000\<close>), a month from
  01 to 12, a day from 01 to the length of the month in that year of the proleptic
  Gregorian calendar, an hour to 23, minutes and seconds to 59, three digits of
  milliseconds and the designator \<open>Z\<close>. In a pattern, \<open>d\<close> stands for a decimal digit
  and every other character for itself.
\<close>

definition is_digit :: "char \<Rightarrow> bool" where
  "is_digit c = (c \<in> set ''0123456789'')"

fun shape :: "string \<Rightarrow> string \<Rightarrow> bool" where
  "shape [] [] = True"
| "shape (p # ps) (c # cs) = ((if p = CHR ''d'' then is_digit c else c = p) \<and> shape ps cs)"
| "shape _ _ = False"

definition digit_value :: "char \<Rightarrow> nat" where
  "digit_value c = of_char c - 48"

definition number_of :: "string \<Rightarrow> nat" where
  "number_of s = foldl (\<lambda>n c. 10 * n + digit_value c) 0 s"

definition between :: "nat \<Rightarrow> nat \<Rightarrow> string \<Rightarrow> nat" where
  "between i j s = number_of (take (j - i) (drop i s))"

definition days_in_month :: "nat \<Rightarrow> nat \<Rightarrow> nat" where
  "days_in_month year month =
     (if month = 2 then (if DaysInYear (int year) = 366 then 29 else 28)
      else if month = 4 \<or> month = 6 \<or> month = 9 \<or> month = 11 then 30
      else 31)"

definition date_time_ok :: "nat \<Rightarrow> string \<Rightarrow> bool" where
  "date_time_ok year s =
     (shape ''-dd-ddTdd:dd:dd.dddZ'' s
      \<and> 1 \<le> between 1 3 s \<and> between 1 3 s \<le> 12
      \<and> 1 \<le> between 4 6 s \<and> between 4 6 s \<le> days_in_month year (between 1 3 s)
      \<and> between 7 9 s \<le> 23 \<and> between 10 12 s \<le> 59 \<and> between 13 15 s \<le> 59)"

definition iso8601_utc :: "string \<Rightarrow> bool" where
  "iso8601_utc s =
     (if shape ''dddd'' (take 4 s) then date_time_ok (number_of (take 4 s)) (drop 4 s)
      else if shape ''+dddddd'' (take 7 s) then date_time_ok (between 1 7 s) (drop 7 s)
      else shape ''-dddddd'' (take 7 s) \<and> 0 < between 1 7 s
           \<and> date_time_ok (between 1 7 s) (drop 7 s))"

section \<open>The image generation tool\<close>

text \<open>
  \<open>Buffer.toString('base64')\<close>: three bytes become four characters of the standard
  alphabet, and a last group of one or two bytes is padded with \<open>=\<close>.
\<close>

definition base64_char :: "8 word \<Rightarrow> char" where
  "base64_char i =
     ''ABCDEFGHIJKLMNOPQRSTUVWXYZabcdefghijklmnopqrstuvwxyz0123456789+/'' ! unat (i AND 63)"

fun base64 :: "8 word list \<Rightarrow> string" where
  "base64 [] = []"
| "base64 [a] =
     [base64_char (drop_bit 2 a), base64_char (push_bit 4 (a AND 3)), CHR ''='', CHR ''='']"
| "base64 [a, b] =
     [base64_char (drop_bit 2 a), base64_char (push_bit 4 (a AND 3) OR drop_bit 4 b),
      base64_char (push_bit 2 (b AND 15)), CHR ''='']"
| "base64 (a # b # c # rest) =
     [base64_char (drop_bit 2 a), base64_char (push_bit 4 (a AND 3) OR drop_bit 4 b),
      base64_char (push_bit 2 (b AND 15) OR drop_bit 6 c), base64_char (c AND 63)]
     @ base64 rest"

definition generate_image_schema :: "'n arguments \<Rightarrow> string list + string" where
  "generate_image_schema args =
     (case z_string (args ''prompt'') of
        Some prompt \<Rightarrow> Inr prompt
      | None \<Rightarrow> Inl (issues [(''prompt'', False)]))"

text \<open>
  The body of the \<open>try\<close> block: the token check (\<open>!process.env.HF_TOKEN\<close> holds for
  an unset and for an empty variable), the request to the inference service and the
  encoding of the image.
\<close>

definition generate_image_try :: "'n world \<Rightarrow> string \<Rightarrow> thrown + tool_result" where
  "generate_image_try w prompt =
     (case HF_TOKEN w of
        None \<Rightarrow> Inl (Error msg_token_not_set)
      | Some token \<Rightarrow>
          if token = [] then Inl (Error msg_token_not_set)
          else
            (case textToImage w token
                    \<lparr>provider = ''fal-ai'', model = ''black-forest-labs/FLUX.1-schnell'',
                     inputs = prompt, num_inference_steps = 5\<rparr> of
               Inl e \<Rightarrow> Inl e
             | Inr imageBlob \<Rightarrow>
                 Inr (ToolResult [Image (base64 imageBlob) ''image/png'']
                        (Some \<lparr>audience = [''user''], priority = 9 / 10\<rparr>))))"

text \<open>
  The \<open>catch\<close> block: whatever the \<open>try\<close> block threw is replaced by one
  \<open>Error\<close>, whose message is a fixed opening followed by the message of the caught
  \<open>Error\<close>, or by a fixed text when the caught value is no \<open>Error\<close>.
\<close>

definition generate_image_catch :: "thrown \<Rightarrow> thrown" where
  "generate_image_catch error =
     Error (msg_generation_failed @ '': ''
            @ (case error of Error message \<Rightarrow> message | NonError \<Rightarrow> msg_unknown_error))"

definition generate_image_handler :: "'n world \<Rightarrow> string \<Rightarrow> thrown + tool_result" where
  "generate_image_handler w prompt =
     (case generate_image_try w prompt of
        Inl error \<Rightarrow> Inl (generate_image_catch error)
      | Inr result \<Rightarrow> Inr result)"

definition generate_image :: "'n world \<Rightarrow> 'n arguments \<Rightarrow> failure + tool_result" where
  "generate_image w = call generate_image_schema (generate_image_handler w)"

section \<open>The server information resource\<close>

text \<open>The texts of the description the handler returns.\<close>

definition info_description :: string where
  \<comment> \<open>in English: an MCP server that offers greeting, calculator and time lookup\<close>
  "info_description =
     [CHR 0xEC, CHR 0x9D, CHR 0xB8, CHR 0xEC, CHR 0x82, CHR 0xAC] @ '', '' @ [CHR 0xEA,
       CHR 0xB3, CHR 0x84, CHR 0xEC, CHR 0x82, CHR 0xB0, CHR 0xEA, CHR 0xB8, CHR 0xB0] @ '', ''
       @ [CHR 0xEC, CHR 0x8B, CHR 0x9C, CHR 0xEA, CHR 0xB0, CHR 0x84] @ '' '' @ [CHR 0xEC,
       CHR 0xA1, CHR 0xB0, CHR 0xED, CHR 0x9A, CHR 0x8C] @ '' '' @ [CHR 0xEA, CHR 0xB8,
       CHR 0xB0, CHR 0xEB, CHR 0x8A, CHR 0xA5, CHR 0xEC, CHR 0x9D, CHR 0x84] @ '' '' @
       [CHR 0xEC, CHR 0xA0, CHR 0x9C, CHR 0xEA, CHR 0xB3, CHR 0xB5, CHR 0xED, CHR 0x95,
       CHR 0x98, CHR 0xEB, CHR 0x8A, CHR 0x94] @ '' MCP '' @ [CHR 0xEC, CHR 0x84, CHR 0x9C,
       CHR 0xEB, CHR 0xB2, CHR 0x84]"

definition greeting_description :: string where
  \<comment> \<open>in English: multilingual greeting (Korean, English, Japanese)\<close>
  "greeting_description =
     [CHR 0xEB, CHR 0x8B, CHR 0xA4, CHR 0xEA, CHR 0xB5, CHR 0xAD, CHR 0xEC, CHR 0x96, CHR 0xB4]
       @ '' '' @ [CHR 0xEC, CHR 0x9D, CHR 0xB8, CHR 0xEC, CHR 0x82, CHR 0xAC] @ '' '' @
       [CHR 0xEA, CHR 0xB8, CHR 0xB0, CHR 0xEB, CHR 0x8A, CHR 0xA5] @ '' ('' @ [CHR 0xED,
       CHR 0x95, CHR 0x9C, CHR 0xEA, CHR 0xB5, CHR 0xAD, CHR 0xEC, CHR 0x96, CHR 0xB4] @ '', ''
       @ [CHR 0xEC, CHR 0x98, CHR 0x81, CHR 0xEC, CHR 0x96, CHR 0xB4] @ '', '' @ [CHR 0xEC,
       CHR 0x9D, CHR 0xBC, CHR 0xEB, CHR 0xB3, CHR 0xB8, CHR 0xEC, CHR 0x96, CHR 0xB4] @ '')''"

definition greeting_name_summary :: string where
  \<comment> \<open>in English: string - name of the person to greet\<close>
  "greeting_name_summary =
     ''string - '' @ [CHR 0xEC, CHR 0x9D, CHR 0xB8, CHR 0xEC, CHR 0x82, CHR 0xAC, CHR 0xED,
       CHR 0x95, CHR 0xA0] @ '' '' @ [CHR 0xEC, CHR 0x82, CHR 0xAC, CHR 0xEB, CHR 0x9E,
       CHR 0x8C, CHR 0xEC, CHR 0x9D, CHR 0x98] @ '' '' @ [CHR 0xEC, CHR 0x9D, CHR 0xB4,
       CHR 0xEB, CHR 0xA6, CHR 0x84]"

definition greeting_language_summary :: string where
  \<comment> \<open>in English: enum - greeting language (ko, en, ja)\<close>
  "greeting_language_summary =
     ''enum - '' @ [CHR 0xEC, CHR 0x9D, CHR 0xB8, CHR 0xEC, CHR 0x82, CHR 0xAC] @ '' '' @
       [CHR 0xEC, CHR 0x96, CHR 0xB8, CHR 0xEC, CHR 0x96, CHR 0xB4] @ '' (ko, en, ja)''"

definition calculator_description :: string where
  \<comment> \<open>in English: calculator of the four operations\<close>
  "calculator_description =
     [CHR 0xEC, CHR 0x82, CHR 0xAC, CHR 0xEC, CHR 0xB9, CHR 0x99, CHR 0xEC, CHR 0x97, CHR 0xB0,
       CHR 0xEC, CHR 0x82, CHR 0xB0] @ '' '' @ [CHR 0xEA, CHR 0xB3, CHR 0x84, CHR 0xEC,
       CHR 0x82, CHR 0xB0, CHR 0xEA, CHR 0xB8, CHR 0xB0]"

definition calculator_operation_summary :: string where
  \<comment> \<open>in English: enum - kind of operation (add, subtract, multiply, divide)\<close>
  "calculator_operation_summary =
     ''enum - '' @ [CHR 0xEC, CHR 0x97, CHR 0xB0, CHR 0xEC, CHR 0x82, CHR 0xB0] @ '' '' @
       [CHR 0xEC, CHR 0xA2, CHR 0x85, CHR 0xEB, CHR 0xA5, CHR 0x98] @
       '' (add, subtract, multiply, divide)''"

definition calculator_a_summary :: string where
  \<comment> \<open>in English: number - first number\<close>
  "calculator_a_summary =
     ''number - '' @ [CHR 0xEC, CHR 0xB2, CHR 0xAB] @ '' '' @ [CHR 0xEB, CHR 0xB2, CHR 0x88,
       CHR 0xEC, CHR 0xA7, CHR 0xB8] @ '' '' @ [CHR 0xEC, CHR 0x88, CHR 0xAB, CHR 0xEC,
       CHR 0x9E, CHR 0x90]"

definition calculator_b_summary :: string where
  \<comment> \<open>in English: number - second number\<close>
  "calculator_b_summary =
     ''number - '' @ [CHR 0xEB, CHR 0x91, CHR 0x90] @ '' '' @ [CHR 0xEB, CHR 0xB2, CHR 0x88,
       CHR 0xEC, CHR 0xA7, CHR 0xB8] @ '' '' @ [CHR 0xEC, CHR 0x88, CHR 0xAB, CHR 0xEC,
       CHR 0x9E, CHR 0x90]"

definition get_time_description :: string where
  \<comment> \<open>in English: time lookup\<close>
  "get_time_description =
     [CHR 0xEC, CHR 0x8B, CHR 0x9C, CHR 0xEA, CHR 0xB0, CHR 0x84] @ '' '' @ [CHR 0xEC,
       CHR 0xA1, CHR 0xB0, CHR 0xED, CHR 0x9A, CHR 0x8C] @ '' '' @ [CHR 0xEA, CHR 0xB8,
       CHR 0xB0, CHR 0xEB, CHR 0x8A, CHR 0xA5]"

definition get_time_timeZone_summary :: string where
  \<comment> \<open>in English: string - time zone (optional)\<close>
  "get_time_timeZone_summary =
     ''string - '' @ [CHR 0xEC, CHR 0x8B, CHR 0x9C, CHR 0xEA, CHR 0xB0, CHR 0x84, CHR 0xEB,
       CHR 0x8C, CHR 0x80] @ '' ('' @ [CHR 0xEC, CHR 0x84, CHR 0xA0, CHR 0xED, CHR 0x83,
       CHR 0x9D] @ '')''"

definition get_time_format_summary :: string where
  \<comment> \<open>in English: enum - time format (full, date, time, iso)\<close>
  "get_time_format_summary =
     ''enum - '' @ [CHR 0xEC, CHR 0x8B, CHR 0x9C, CHR 0xEA, CHR 0xB0, CHR 0x84] @ '' '' @
       [CHR 0xED, CHR 0x98, CHR 0x95, CHR 0xEC, CHR 0x8B, CHR 0x9D] @
       '' (full, date, time, iso)''"

definition info_resource_description :: string where
  \<comment> \<open>in English: server information lookup\<close>
  "info_resource_description =
     [CHR 0xEC, CHR 0x84, CHR 0x9C, CHR 0xEB, CHR 0xB2, CHR 0x84] @ '' '' @ [CHR 0xEC,
       CHR 0xA0, CHR 0x95, CHR 0xEB, CHR 0xB3, CHR 0xB4] @ '' '' @ [CHR 0xEC, CHR 0xA1,
       CHR 0xB0, CHR 0xED, CHR 0x9A, CHR 0x8C]"

definition info_metadata_name :: string where
  \<comment> \<open>in English: server information\<close>
  "info_metadata_name =
     [CHR 0xEC, CHR 0x84, CHR 0x9C, CHR 0xEB, CHR 0xB2, CHR 0x84] @ '' '' @ [CHR 0xEC,
       CHR 0xA0, CHR 0x95, CHR 0xEB, CHR 0xB3, CHR 0xB4]"

definition info_metadata_description :: string where
  \<comment> \<open>in English: provides the basic information and the specification of the MCP server\<close>
  "info_metadata_description =
     ''MCP '' @ [CHR 0xEC, CHR 0x84, CHR 0x9C, CHR 0xEB, CHR 0xB2, CHR 0x84, CHR 0xEC,
       CHR 0x9D, CHR 0x98] @ '' '' @ [CHR 0xEA, CHR 0xB8, CHR 0xB0, CHR 0xEB, CHR 0xB3,
       CHR 0xB8] @ '' '' @ [CHR 0xEC, CHR 0xA0, CHR 0x95, CHR 0xEB, CHR 0xB3, CHR 0xB4,
       CHR 0xEC, CHR 0x99, CHR 0x80] @ '' '' @ [CHR 0xEC, CHR 0x8A, CHR 0xA4, CHR 0xED,
       CHR 0x8E, CHR 0x99, CHR 0xEC, CHR 0x9D, CHR 0x84] @ '' '' @ [CHR 0xEC, CHR 0xA0,
       CHR 0x9C, CHR 0xEA, CHR 0xB3, CHR 0xB5, CHR 0xED, CHR 0x95, CHR 0xA9, CHR 0xEB,
       CHR 0x8B, CHR 0x88, CHR 0xEB, CHR 0x8B, CHR 0xA4]"

text \<open>
  The object \<open>serverInfo\<close> the handler builds: the identity of the server, a listing
  of capabilities written out in the handler, and the figures of the process with the
  time of the call.
\<close>

definition serverInfo :: "'n world \<Rightarrow> string \<Rightarrow> 'n json" where
  "serverInfo w timestamp =
     JObj
       [(''name'', JStr ''greeting-mcp-server''),
        (''version'', JStr ''1.0.0''),
        (''description'', JStr info_description),
        (''capabilities'',
         JObj
           [(''tools'',
             JArr
               [JObj
                  [(''name'', JStr ''greeting''),
                   (''description'', JStr greeting_description),
                   (''parameters'',
                    JObj
                      [(''name'', JStr greeting_name_summary),
                       (''language'', JStr greeting_language_summary)])],
                JObj
                  [(''name'', JStr ''calculator''),
                   (''description'', JStr calculator_description),
                   (''parameters'',
                    JObj
                      [(''operation'', JStr calculator_operation_summary),
                       (''a'', JStr calculator_a_summary),
                       (''b'', JStr calculator_b_summary)])],
                JObj
                  [(''name'', JStr ''get_time''),
                   (''description'', JStr get_time_description),
                   (''parameters'',
                    JObj
                      [(''timeZone'', JStr get_time_timeZone_summary),
                       (''format'', JStr get_time_format_summary)])]]),
            (''resources'',
             JArr
               [JObj
                  [(''name'', JStr ''server://info''),
                   (''description'', JStr info_resource_description)]])]),
        (''runtime'',
         JObj
           [(''nodeVersion'', JStr (nodeVersion w)),
            (''platform'', JStr (platform w)),
            (''uptime'', JNum (uptime w)),
            (''memoryUsage'', JObj (map (\<lambda>(k, v). (k, JNum v)) (memoryUsage w))),
            (''timestamp'', JStr timestamp)]),
        (''author'', JStr ''MCP Server Developer''),
        (''license'', JStr ''ISC'')]"

text \<open>
  The handler returns one block whose text is \<open>JSON.stringify(serverInfo, null, 2)\<close>;
  the serialiser is the runtime's and a parameter here.
\<close>

definition server_info_handler :: "('n json \<Rightarrow> string) \<Rightarrow> 'n world \<Rightarrow> thrown + resource_contents list" where
  "server_info_handler stringify w =
     (case toISOString (clock w) of
        Inl e \<Rightarrow> Inl e
      | Inr timestamp \<Rightarrow>
          Inr [ResourceContents ''server://info'' ''application/json''
                 (stringify (serverInfo w timestamp))])"

text \<open>The names a description lists under \<open>capabilities.tools\<close> and \<open>capabilities.resources\<close>.\<close>

fun member_of :: "string \<Rightarrow> 'n json \<Rightarrow> 'n json option" where
  "member_of key (JObj members) = map_of members key"
| "member_of key _ = None"

definition names_of :: "'n json option \<Rightarrow> string list" where
  "names_of listing =
     (case listing of
        Some (JArr entries) \<Rightarrow>
          List.map_filter
            (\<lambda>entry. case member_of ''name'' entry of Some (JStr name) \<Rightarrow> Some name | _ \<Rightarrow> None)
            entries
      | _ \<Rightarrow> [])"

definition listed_tools :: "'n json \<Rightarrow> string list" where
  "listed_tools info = names_of (Option.bind (member_of ''capabilities'' info) (member_of ''tools''))"

definition listed_resources :: "'n json \<Rightarrow> string list" where
  "listed_resources info = names_of (Option.bind (member_of ''capabilities'' info) (member_of ''resources''))"

section \<open>Registration\<close>

text \<open>
  The server keeps what was registered on it. \<open>server.tool\<close>, \<open>server.resource\<close> and
  \<open>server.prompt\<close> add a name (a resource is kept under its URI, with its name and
  metadata) and throw when it is registered already. A module is the sequence of its
  registrations, run when it is loaded.
\<close>

record resource_metadata =
  metadata_name :: string
  metadata_description :: string
  metadata_mimeType :: string

record server =
  tools :: "string list"
  resources :: "(string \<times> string \<times> resource_metadata) list"
  prompts :: "string list"

definition McpServer :: server where
  "McpServer = \<lparr>tools = [], resources = [], prompts = []\<rparr>"

definition server_tool :: "string \<Rightarrow> server \<Rightarrow> thrown + server" where
  "server_tool name srv =
     (if name \<in> set (tools srv) then Inl (Error (''Tool '' @ name @ '' is already registered''))
      else Inr (srv\<lparr>tools := tools srv @ [name]\<rparr>))"

definition server_resource :: "string \<Rightarrow> string \<Rightarrow> resource_metadata \<Rightarrow> server \<Rightarrow> thrown + server" where
  "server_resource name uri' metadata srv =
     (if uri' \<in> set (map fst (resources srv)) then Inl (Error (''Resource '' @ uri' @ '' is already registered''))
      else Inr (srv\<lparr>resources := resources srv @ [(uri', name, metadata)]\<rparr>))"

definition server_prompt :: "string \<Rightarrow> server \<Rightarrow> thrown + server" where
  "server_prompt name srv =
     (if name \<in> set (prompts srv) then Inl (Error (''Prompt '' @ name @ '' is already registered''))
      else Inr (srv\<lparr>prompts := prompts srv @ [name]\<rparr>))"

definition load :: "(server \<Rightarrow> thrown + server) list \<Rightarrow> thrown + server" where
  "load registrations =
     foldl (\<lambda>state register. case state of Inl e \<Rightarrow> Inl e | Inr srv \<Rightarrow> register srv)
       (Inr McpServer) registrations"

definition info_metadata :: resource_metadata where
  "info_metadata =
     \<lparr>metadata_name = info_metadata_name, metadata_description = info_metadata_description,
      metadata_mimeType = ''application/json''\<rparr>"

text \<open>
  The two modules of the repository: \<open>src/index.ts\<close>, and the extended module
  \<open>part_000\<close>, which adds the image generation tool between the resource and the prompt
  and is the same elsewhere.
\<close>

definition index_ts :: "(server \<Rightarrow> thrown + server) list" where
  "index_ts =
     [server_tool ''greeting'', server_tool ''calculator'', server_tool ''get_time'',
      server_resource ''server://info'' ''server://info'' info_metadata,
      server_prompt ''code_review'']"

definition part_000 :: "(server \<Rightarrow> thrown + server) list" where
  "part_000 =
     [server_tool ''greeting'', server_tool ''calculator'', server_tool ''get_time'',
      server_resource ''server://info'' ''server://info'' info_metadata,
      server_tool ''generate_image'',
      server_prompt ''code_review'']"

definition registered_tools :: "thrown + server \<Rightarrow> string list" where
  "registered_tools state = (case state of Inl e \<Rightarrow> [] | Inr srv \<Rightarrow> tools srv)"

definition registered_resources :: "thrown + server \<Rightarrow> string list" where
  "registered_resources state = (case state of Inl e \<Rightarrow> [] | Inr srv \<Rightarrow> map (\<lambda>(uri', name, metadata). name) (resources srv))"

section \<open>The code review prompt\<close>

text \<open>The texts of the template, in the order of the template.\<close>

definition review_following :: string where
  \<comment> \<open>in English: the following\<close>
  "review_following =
     [CHR 0xEB, CHR 0x8B, CHR 0xA4, CHR 0xEC, CHR 0x9D, CHR 0x8C]"

definition review_request :: string where
  \<comment> \<open>in English: (please) analyse the code and give a detailed review\<close>
  "review_request =
     '' '' @ [CHR 0xEC, CHR 0xBD, CHR 0x94, CHR 0xEB, CHR 0x93, CHR 0x9C, CHR 0xEB, CHR 0xA5,
       CHR 0xBC] @ '' '' @ [CHR 0xEB, CHR 0xB6, CHR 0x84, CHR 0xEC, CHR 0x84, CHR 0x9D,
       CHR 0xED, CHR 0x95, CHR 0x98, CHR 0xEA, CHR 0xB3, CHR 0xA0] @ '' '' @ [CHR 0xEC,
       CHR 0x83, CHR 0x81, CHR 0xEC, CHR 0x84, CHR 0xB8, CHR 0xED, CHR 0x95, CHR 0x9C] @ '' ''
       @ [CHR 0xEB, CHR 0xA6, CHR 0xAC, CHR 0xEB, CHR 0xB7, CHR 0xB0, CHR 0xEB, CHR 0xA5,
       CHR 0xBC] @ '' '' @ [CHR 0xEC, CHR 0xA0, CHR 0x9C, CHR 0xEA, CHR 0xB3, CHR 0xB5,
       CHR 0xED, CHR 0x95, CHR 0xB4, CHR 0xEC, CHR 0xA3, CHR 0xBC, CHR 0xEC, CHR 0x84,
       CHR 0xB8, CHR 0xEC, CHR 0x9A, CHR 0x94]"

definition review_centred :: string where
  \<comment> \<open>in English: centred (on the focus)\<close>
  "review_centred =
     '' '' @ [CHR 0xEC, CHR 0xA4, CHR 0x91, CHR 0xEC, CHR 0x8B, CHR 0xAC]"

definition rubric_heading :: string where
  \<comment> \<open>in English: review items:\<close>
  "rubric_heading =
     [CHR 0xEB, CHR 0xA6, CHR 0xAC, CHR 0xEB, CHR 0xB7, CHR 0xB0] @ '' '' @ [CHR 0xED,
       CHR 0x95, CHR 0xAD, CHR 0xEB, CHR 0xAA, CHR 0xA9] @ '':''"

definition rubric_quality :: string where
  \<comment> \<open>in English: 1. code quality: readability, structure, modularity\<close>
  "rubric_quality =
     ''1. **'' @ [CHR 0xEC, CHR 0xBD, CHR 0x94, CHR 0xEB, CHR 0x93, CHR 0x9C] @ '' '' @
       [CHR 0xED, CHR 0x92, CHR 0x88, CHR 0xEC, CHR 0xA7, CHR 0x88] @ ''**: '' @ [CHR 0xEA,
       CHR 0xB0, CHR 0x80, CHR 0xEB, CHR 0x8F, CHR 0x85, CHR 0xEC, CHR 0x84, CHR 0xB1] @ '', ''
       @ [CHR 0xEA, CHR 0xB5, CHR 0xAC, CHR 0xEC, CHR 0xA1, CHR 0xB0] @ '', '' @ [CHR 0xEB,
       CHR 0xAA, CHR 0xA8, CHR 0xEB, CHR 0x93, CHR 0x88, CHR 0xED, CHR 0x99, CHR 0x94]"

definition rubric_performance :: string where
  \<comment> \<open>in English: 2. performance: efficiency, what can be optimised\<close>
  "rubric_performance =
     ''2. **'' @ [CHR 0xEC, CHR 0x84, CHR 0xB1, CHR 0xEB, CHR 0x8A, CHR 0xA5] @ ''**: '' @
       [CHR 0xED, CHR 0x9A, CHR 0xA8, CHR 0xEC, CHR 0x9C, CHR 0xA8, CHR 0xEC, CHR 0x84,
       CHR 0xB1] @ '', '' @ [CHR 0xEC, CHR 0xB5, CHR 0x9C, CHR 0xEC, CHR 0xA0, CHR 0x81,
       CHR 0xED, CHR 0x99, CHR 0x94] @ '' '' @ [CHR 0xEA, CHR 0xB0, CHR 0x80, CHR 0xEB,
       CHR 0x8A, CHR 0xA5, CHR 0xED, CHR 0x95, CHR 0x9C] @ '' '' @ [CHR 0xEB, CHR 0xB6,
       CHR 0x80, CHR 0xEB, CHR 0xB6, CHR 0x84]"

definition rubric_security :: string where
  \<comment> \<open>in English: 3. security: potential vulnerabilities\<close>
  "rubric_security =
     ''3. **'' @ [CHR 0xEB, CHR 0xB3, CHR 0xB4, CHR 0xEC, CHR 0x95, CHR 0x88] @ ''**: '' @
       [CHR 0xEC, CHR 0x9E, CHR 0xA0, CHR 0xEC, CHR 0x9E, CHR 0xAC, CHR 0xEC, CHR 0xA0,
       CHR 0x81] @ '' '' @ [CHR 0xEB, CHR 0xB3, CHR 0xB4, CHR 0xEC, CHR 0x95, CHR 0x88] @ '' ''
       @ [CHR 0xEC, CHR 0xB7, CHR 0xA8, CHR 0xEC, CHR 0x95, CHR 0xBD, CHR 0xEC, CHR 0xA0,
       CHR 0x90]"

definition rubric_style :: string where
  \<comment> \<open>in English: 4. style: coding conventions, naming\<close>
  "rubric_style =
     ''4. **'' @ [CHR 0xEC, CHR 0x8A, CHR 0xA4, CHR 0xED, CHR 0x83, CHR 0x80, CHR 0xEC,
       CHR 0x9D, CHR 0xBC] @ ''**: '' @ [CHR 0xEC, CHR 0xBD, CHR 0x94, CHR 0xEB, CHR 0x94,
       CHR 0xA9] @ '' '' @ [CHR 0xEC, CHR 0xBB, CHR 0xA8, CHR 0xEB, CHR 0xB2, CHR 0xA4,
       CHR 0xEC, CHR 0x85, CHR 0x98] @ '', '' @ [CHR 0xEB, CHR 0x84, CHR 0xA4, CHR 0xEC,
       CHR 0x9D, CHR 0xB4, CHR 0xEB, CHR 0xB0, CHR 0x8D]"

definition rubric_suggestions :: string where
  \<comment> \<open>in English: 5. suggestions: concrete improvements\<close>
  "rubric_suggestions =
     ''5. **'' @ [CHR 0xEA, CHR 0xB0, CHR 0x9C, CHR 0xEC, CHR 0x84, CHR 0xA0] @ '' '' @
       [CHR 0xEC, CHR 0xA0, CHR 0x9C, CHR 0xEC, CHR 0x95, CHR 0x88] @ ''**: '' @ [CHR 0xEA,
       CHR 0xB5, CHR 0xAC, CHR 0xEC, CHR 0xB2, CHR 0xB4, CHR 0xEC, CHR 0xA0, CHR 0x81,
       CHR 0xEC, CHR 0x9D, CHR 0xB8] @ '' '' @ [CHR 0xEA, CHR 0xB0, CHR 0x9C, CHR 0xEC,
       CHR 0x84, CHR 0xA0] @ '' '' @ [CHR 0xEB, CHR 0xB0, CHR 0xA9, CHR 0xEC, CHR 0x95,
       CHR 0x88]"

definition rubric_best_practices :: string where
  \<comment> \<open>in English: 6. best practices of the language or framework\<close>
  "rubric_best_practices =
     ''6. **'' @ [CHR 0xEB, CHR 0xAA, CHR 0xA8, CHR 0xEB, CHR 0xB2, CHR 0x94] @ '' '' @
       [CHR 0xEC, CHR 0x82, CHR 0xAC, CHR 0xEB, CHR 0xA1, CHR 0x80] @ ''**: '' @ [CHR 0xED,
       CHR 0x95, CHR 0xB4, CHR 0xEB, CHR 0x8B, CHR 0xB9] @ '' '' @ [CHR 0xEC, CHR 0x96,
       CHR 0xB8, CHR 0xEC, CHR 0x96, CHR 0xB4] @ ''/'' @ [CHR 0xED, CHR 0x94, CHR 0x84,
       CHR 0xEB, CHR 0xA0, CHR 0x88, CHR 0xEC, CHR 0x9E, CHR 0x84, CHR 0xEC, CHR 0x9B,
       CHR 0x8C, CHR 0xED, CHR 0x81, CHR 0xAC, CHR 0xEC, CHR 0x9D, CHR 0x98] @ '' '' @
       [CHR 0xEB, CHR 0xAA, CHR 0xA8, CHR 0xEB, CHR 0xB2, CHR 0x94] @ '' '' @ [CHR 0xEC,
       CHR 0x82, CHR 0xAC, CHR 0xEB, CHR 0xA1, CHR 0x80]"

definition rubric_closing :: string where
  \<comment> \<open>in English: (please) explain each item with concrete examples.\<close>
  "rubric_closing =
     [CHR 0xEA, CHR 0xB0, CHR 0x81] @ '' '' @ [CHR 0xED, CHR 0x95, CHR 0xAD, CHR 0xEB,
       CHR 0xAA, CHR 0xA9, CHR 0xEB, CHR 0xB3, CHR 0x84, CHR 0xEB, CHR 0xA1, CHR 0x9C] @ '' ''
       @ [CHR 0xEA, CHR 0xB5, CHR 0xAC, CHR 0xEC, CHR 0xB2, CHR 0xB4, CHR 0xEC, CHR 0xA0,
       CHR 0x81, CHR 0xEC, CHR 0x9D, CHR 0xB8] @ '' '' @ [CHR 0xEC, CHR 0x98, CHR 0x88,
       CHR 0xEC, CHR 0x8B, CHR 0x9C, CHR 0xEC, CHR 0x99, CHR 0x80] @ '' '' @ [CHR 0xED,
       CHR 0x95, CHR 0xA8, CHR 0xEA, CHR 0xBB, CHR 0x98] @ '' '' @ [CHR 0xEC, CHR 0x84,
       CHR 0xA4, CHR 0xEB, CHR 0xAA, CHR 0x85, CHR 0xED, CHR 0x95, CHR 0xB4, CHR 0xEC,
       CHR 0xA3, CHR 0xBC, CHR 0xEC, CHR 0x84, CHR 0xB8, CHR 0xEC, CHR 0x9A, CHR 0x94] @ ''.''"

definition code_review_schema :: "'n arguments \<Rightarrow> string list + string \<times> string option \<times> string option" where
  "code_review_schema args =
     (let code = z_string (args ''code'');
          language = z_optional z_string (args ''language'');
          focus = z_optional (z_enum [''quality'', ''performance'', ''security'', ''style'', ''all'']) (args ''focus'')
      in case (code, language, focus) of
           (Some c, Some l, Some f) \<Rightarrow> Inr (c, l, f)
         | _ \<Rightarrow> Inl (issues [(''code'', code \<noteq> None), (''language'', language \<noteq> None), (''focus'', focus \<noteq> None)]))"

text \<open>
  The parts of the template that depend on the arguments. \<open>language ? ... : ''\<close> and
  \<open>language || ''\<close> take the empty string for an absent language; the parameter default
  \<open>focus = 'all'\<close> replaces an absent focus.
\<close>

definition languageInfo :: "string option \<Rightarrow> string" where
  "languageInfo language =
     (case language of Some l \<Rightarrow> if l = [] then [] else '' ('' @ l @ '')'' | None \<Rightarrow> [])"

definition language_or_empty :: "string option \<Rightarrow> string" where
  "language_or_empty language = (case language of Some l \<Rightarrow> l | None \<Rightarrow> [])"

definition focus_or_all :: "string option \<Rightarrow> string" where
  "focus_or_all focus = (case focus of Some f \<Rightarrow> f | None \<Rightarrow> ''all'')"

definition focusInfo :: "string \<Rightarrow> string" where
  "focusInfo focus = (if focus \<noteq> ''all'' then '' - '' @ focus @ review_centred else [])"

definition reviewPrompt :: "string \<Rightarrow> string option \<Rightarrow> string \<Rightarrow> string" where
  "reviewPrompt code language focus =
     review_following @ languageInfo language @ review_request @ focusInfo focus @ '':\<newline>''
     @ ''\<newline>''
     @ ''```'' @ language_or_empty language @ ''\<newline>''
     @ code @ ''\<newline>''
     @ ''```\<newline>''
     @ ''\<newline>''
     @ rubric_heading @ ''\<newline>''
     @ rubric_quality @ ''\<newline>''
     @ rubric_performance @ ''\<newline>''
     @ rubric_security @ ''\<newline>''
     @ rubric_style @ ''\<newline>''
     @ rubric_suggestions @ ''\<newline>''
     @ rubric_best_practices @ ''\<newline>''
     @ ''\<newline>''
     @ rubric_closing"

definition code_review_handler :: "'n world \<Rightarrow> string \<times> string option \<times> string option \<Rightarrow> thrown + prompt_message list" where
  "code_review_handler w = (\<lambda>(code, language, focus).
     Inr [Message ''user'' (Text (reviewPrompt code language (focus_or_all focus)))])"

definition code_review :: "'n world \<Rightarrow> 'n arguments \<Rightarrow> failure + prompt_message list" where
  "code_review w = call code_review_schema (code_review_handler w)"

section \<open>Sample inputs\<close>

text \<open>
  A process for concrete calls: the clock reads 2025-09-25T10:54:56.789Z, \<open>HF_TOKEN\<close> is
  not set, and the inference service is out of reach. The second process has a token; in
  the third the service answers that token with the words of the missing-credential
  message. The sample of the localised renderings knows no time zone at all.
\<close>

definition example_world :: "number world" where
  "example_world =
     \<lparr>clock = 1758797696789,
      HF_TOKEN = None,
      textToImage = (\<lambda>token request. Inl (Error ''fetch failed'')),
      nodeVersion = ''v22.19.0'',
      platform = ''linux'',
      uptime = Integer 12,
      memoryUsage = [(''rss'', Integer 52428800), (''heapTotal'', Integer 8388608), (''heapUsed'', Integer 6291456)]\<rparr>"

definition example_world_with_token :: "number world" where
  "example_world_with_token = example_world\<lparr>HF_TOKEN := Some ''hf_example''\<rparr>"

definition example_world_rejected :: "number world" where
  "example_world_rejected =
     example_world_with_token\<lparr>textToImage := (\<lambda>token request. Inl (Error msg_token_not_set))\<rparr>"

definition example_intl :: intl where
  "example_intl =
     \<lparr>toLocaleDateString = (\<lambda>t locale timeZone options. Inl (Error ''Invalid time zone specified'')),
      toLocaleTimeString = (\<lambda>t locale timeZone options. Inl (Error ''Invalid time zone specified'')),
      toLocaleString = (\<lambda>t locale timeZone options. Inl (Error ''Invalid time zone specified''))\<rparr>"

section \<open>Basic facts\<close>

lemma call_Inr:
  "schema args = Inr parsed \<Longrightarrow>
   call schema handler args = (case handler parsed of Inl e \<Rightarrow> Inl (Thrown e) | Inr r \<Rightarrow> Inr r)"
  by (simp add: call_def)

lemma example_world_simps:
  "clock example_world = 1758797696789"
  "HF_TOKEN example_world = None"
  "HF_TOKEN example_world_with_token = Some ''hf_example''"
  "textToImage example_world_with_token token request = Inl (Error ''fetch failed'')"
  by (simp_all add: example_world_def example_world_with_token_def)

section \<open>Properties of the greeting tool\<close>

lemma enum_default_undefined:
  "z_default d (z_optional (z_enum allowed)) None = Some d"
  by (simp add: z_default_def)

lemma enum_default_value:
  "z_default d (z_optional (z_enum allowed)) (Some v) = z_enum allowed (Some v)"
  by (cases "z_enum allowed (Some v)") (simp_all add: z_default_def z_optional_def)

lemma enum_accepts_member:
  "z_enum allowed v = Some s \<Longrightarrow> s \<in> set allowed"
  by (auto simp: z_enum_def split: option.splits json.splits if_splits)

lemma greeting_schema_language:
  assumes "greeting_schema args = Inr (name, language)"
  shows "language \<in> {''ko'', ''en'', ''ja''}"
proof (cases "args ''language''")
  case None
  with assms have "language = ''ko''"
    by (auto simp: greeting_schema_def Let_def enum_default_undefined split: option.splits)
  then show ?thesis by simp
next
  case (Some v)
  with assms have "z_enum [''ko'', ''en'', ''ja''] (Some v) = Some language"
    by (auto simp: greeting_schema_def Let_def enum_default_value split: option.splits)
  then have "language \<in> set [''ko'', ''en'', ''ja'']"
    by (rule enum_accepts_member)
  then show ?thesis by simp
qed

lemma greeting_schema_omitted:
  "greeting_schema (args(''language'' := None)) = greeting_schema (args(''language'' \<mapsto> JStr ''ko''))"
  by (simp add: greeting_schema_def Let_def enum_default_undefined enum_default_value z_enum_def)

text \<open>
  C6. For every name, the greeting handler returns one text block that holds the name
  between the fixed words of the language, Korean, English or Japanese; a call without a
  language returns what the call with the language \<open>ko\<close> returns; and the call with the
  name Alice and the language \<open>en\<close> returns the text "Hello, Alice! " followed by the
  waving hand.
\<close>

theorem greeting_templates:
  "greeting_handler w (name, ''ko'')
     = Inr (ToolResult [Text (annyeonghaseyo @ '', '' @ name @ nim @ ''! '' @ smile)] None)
   \<and> greeting_handler w (name, ''en'')
     = Inr (ToolResult [Text (''Hello, '' @ name @ ''! '' @ wave)] None)
   \<and> greeting_handler w (name, ''ja'')
     = Inr (ToolResult [Text (konnichiwa @ name @ san @ '' '' @ smile)] None)
   \<and> greeting w (args(''language'' := None)) = greeting w (args(''language'' \<mapsto> JStr ''ko''))
   \<and> greeting w [''name'' \<mapsto> JStr name] = greeting w [''name'' \<mapsto> JStr name, ''language'' \<mapsto> JStr ''ko'']
   \<and> greeting w [''name'' \<mapsto> JStr ''Alice'', ''language'' \<mapsto> JStr ''en'']
     = Inr (ToolResult [Text (''Hello, Alice! '' @ wave)] None)"
proof -
  have ko: "greeting_handler w (name, ''ko'')
      = Inr (ToolResult [Text (annyeonghaseyo @ '', '' @ name @ nim @ ''! '' @ smile)] None)"
    by (simp add: greeting_handler_def greeting_switch_def)
  have en: "greeting_handler w (name, ''en'')
      = Inr (ToolResult [Text (''Hello, '' @ name @ ''! '' @ wave)] None)"
    by (simp add: greeting_handler_def greeting_switch_def)
  have ja: "greeting_handler w (name, ''ja'')
      = Inr (ToolResult [Text (konnichiwa @ name @ san @ '' '' @ smile)] None)"
    by (simp add: greeting_handler_def greeting_switch_def)
  have omitted: "greeting w (args(''language'' := None)) = greeting w (args(''language'' \<mapsto> JStr ''ko''))"
    by (simp add: greeting_def call_def greeting_schema_omitted)
  have "[''name'' \<mapsto> JStr name, ''language'' \<mapsto> JStr ''ko'']
      = ([''name'' \<mapsto> JStr name] :: 'a arguments)(''language'' \<mapsto> JStr ''ko'')"
    by simp
  moreover have "([''name'' \<mapsto> JStr name] :: 'a arguments)(''language'' := None) = [''name'' \<mapsto> JStr name]"
    by (simp add: fun_eq_iff)
  ultimately have bare: "greeting w [''name'' \<mapsto> JStr name]
      = greeting w [''name'' \<mapsto> JStr name, ''language'' \<mapsto> JStr ''ko'']"
    using greeting_schema_omitted [of "[''name'' \<mapsto> JStr name] :: 'a arguments"]
    by (simp add: greeting_def call_def)
  have alice: "greeting w [''name'' \<mapsto> JStr ''Alice'', ''language'' \<mapsto> JStr ''en'']
      = Inr (ToolResult [Text (''Hello, Alice! '' @ wave)] None)"
    by (simp add: greeting_def call_def greeting_schema_def Let_def z_string_def z_default_def
        z_optional_def z_enum_def greeting_handler_def greeting_switch_def)
  from ko en ja omitted bare alice show ?thesis by blast
qed

text \<open>
  C9. The greeting handler has no failure path: for every name and every language value,
  also one outside the schema, it returns one text block. The \<open>default\<close> branch of its
  \<open>switch\<close> is taken exactly for a language other than \<open>ko\<close>, \<open>en\<close> and \<open>ja\<close>, and
  arguments that the schema accepts (a language of the enumeration, or none) never reach
  it.
\<close>

theorem greeting_total_default_unreachable:
  "(\<exists>t. greeting_handler w (name, language) = Inr (ToolResult [Text t] None))
   \<and> (greeting_switch language = CaseDefault) = (language \<notin> {''ko'', ''en'', ''ja''})
   \<and> (greeting_schema args = Inr (name', language') \<longrightarrow> greeting_switch language' \<noteq> CaseDefault)"
proof -
  have total: "\<exists>t. greeting_handler w (name, language) = Inr (ToolResult [Text t] None)"
    by (simp add: greeting_handler_def)
  have branch: "(greeting_switch l = CaseDefault) = (l \<notin> {''ko'', ''en'', ''ja''})" for l
    by (simp add: greeting_switch_def)
  have "greeting_switch language' \<noteq> CaseDefault" if "greeting_schema args = Inr (name', language')"
    using greeting_schema_language [OF that] branch [of language'] by blast
  with total branch show ?thesis by blast
qed

theorem greeting_total_default_unreachable_witness:
  "greeting_schema ([''name'' \<mapsto> JStr ''Alice'', ''language'' \<mapsto> JStr ''ja''] :: number arguments) = Inr (''Alice'', ''ja'')
   \<and> greeting_switch ''ja'' \<noteq> CaseDefault
   \<and> greeting_switch ''fr'' = CaseDefault
   \<and> greeting_handler example_world (''Alice'', ''fr'')
       = Inr (ToolResult [Text (annyeonghaseyo @ '', Alice'' @ nim @ ''! '' @ smile)] None)"
proof -
  have accepted: "greeting_schema ([''name'' \<mapsto> JStr ''Alice'', ''language'' \<mapsto> JStr ''ja''] :: number arguments)
      = Inr (''Alice'', ''ja'')"
    by (simp add: greeting_schema_def Let_def z_string_def z_default_def z_optional_def z_enum_def)
  have fallback: "greeting_handler example_world (''Alice'', ''fr'')
       = Inr (ToolResult [Text (annyeonghaseyo @ '', Alice'' @ nim @ ''! '' @ smile)] None)"
    by (simp add: greeting_handler_def greeting_switch_def)
  show ?thesis
    using accepted fallback
      greeting_total_default_unreachable [of example_world "''Alice''" "''fr''"
        "[''name'' \<mapsto> JStr ''Alice'', ''language'' \<mapsto> JStr ''ja''] :: number arguments"
        "''Alice''" "''ja''"]
    by blast
qed

section \<open>Properties of the calculator tool\<close>

lemma calculator_schema_accepts:
  "operation \<in> {''add'', ''subtract'', ''multiply'', ''divide''} \<Longrightarrow>
   calculator_schema [''operation'' \<mapsto> JStr operation, ''a'' \<mapsto> JNum a, ''b'' \<mapsto> JNum b]
     = Inr (operation, a, b)"
  by (auto simp: calculator_schema_def Let_def z_enum_def z_number_def)

lemma exact_integers_simps:
  "num_add exact_integers = number_add" "num_sub exact_integers = number_sub"
  "num_mul exact_integers = number_mul" "num_div exact_integers = number_div"
  "num_is_zero exact_integers = number_is_zero" "num_to_string exact_integers = number_to_string"
  by (simp_all add: exact_integers_def)

text \<open>
  C3. For every number \<open>a\<close>, the calculator called with the operation \<open>divide\<close> and a
  second number that is zero (the runtime's comparison \<open>b === 0\<close> holds) throws the
  division-by-zero error, both at the handler and through the call, and so returns no
  content block; the error is not the one of an unsupported operation.
\<close>

theorem calculator_divide_by_zero:
  assumes "num_is_zero rt b"
  shows "calculator_handler rt w (''divide'', a, b) = Inl (Error msg_divide_by_zero)
    \<and> calculator rt w [''operation'' \<mapsto> JStr ''divide'', ''a'' \<mapsto> JNum a, ''b'' \<mapsto> JNum b]
        = Inl (Thrown (Error msg_divide_by_zero))
    \<and> msg_divide_by_zero \<noteq> msg_unsupported_operation"
proof -
  have handler: "calculator_handler rt w (''divide'', a, b) = Inl (Error msg_divide_by_zero)"
    using assms by (simp add: calculator_handler_def calculator_switch_def)
  have "calculator_schema [''operation'' \<mapsto> JStr ''divide'', ''a'' \<mapsto> JNum a, ''b'' \<mapsto> JNum b]
      = Inr (''divide'', a, b)"
    by (rule calculator_schema_accepts) simp
  then have through: "calculator rt w [''operation'' \<mapsto> JStr ''divide'', ''a'' \<mapsto> JNum a, ''b'' \<mapsto> JNum b]
      = Inl (Thrown (Error msg_divide_by_zero))"
    by (simp add: calculator_def call_Inr handler)
  have "msg_divide_by_zero \<noteq> msg_unsupported_operation"
    by (simp add: msg_divide_by_zero_def msg_unsupported_operation_def)
  with handler through show ?thesis by blast
qed

theorem calculator_divide_by_zero_witness:
  "num_is_zero exact_integers (Integer 0)
   \<and> calculator exact_integers example_world
        [''operation'' \<mapsto> JStr ''divide'', ''a'' \<mapsto> JNum (Integer 6), ''b'' \<mapsto> JNum (Integer 0)]
      = Inl (Thrown (Error msg_divide_by_zero))"
proof -
  have zero: "num_is_zero exact_integers (Integer 0)"
    by (simp add: exact_integers_simps)
  from calculator_divide_by_zero [OF zero, of example_world "Integer 6"] zero
  show ?thesis by blast
qed

text \<open>
  C4. For the operations \<open>add\<close>, \<open>subtract\<close> and \<open>multiply\<close> and all numbers, and for
  \<open>divide\<close> when the second number is not zero, the calculator handler returns exactly
  one text block, which reads: the first number, a space, the symbol of the operation
  (\<open>+\<close>, \<open>-\<close>, the multiplication sign, the division sign), a space, the second number,
  \<open> = \<close>, and the runtime's result of the operation on the two numbers, each number as
  the runtime prints it. On the runtime's integers, multiplying 6 by 7 returns the text
  "6 x 7 = 42" with the multiplication sign.
\<close>

theorem calculator_text:
  "calculator_handler rt w (''add'', a, b)
     = Inr (ToolResult [Text (num_to_string rt a @ '' + '' @ num_to_string rt b @ '' = ''
                              @ num_to_string rt (num_add rt a b))] None)
   \<and> calculator_handler rt w (''subtract'', a, b)
     = Inr (ToolResult [Text (num_to_string rt a @ '' - '' @ num_to_string rt b @ '' = ''
                              @ num_to_string rt (num_sub rt a b))] None)
   \<and> calculator_handler rt w (''multiply'', a, b)
     = Inr (ToolResult [Text (num_to_string rt a @ '' '' @ times_sign @ '' '' @ num_to_string rt b @ '' = ''
                              @ num_to_string rt (num_mul rt a b))] None)
   \<and> (\<not> num_is_zero rt b \<longrightarrow>
       calculator_handler rt w (''divide'', a, b)
         = Inr (ToolResult [Text (num_to_string rt a @ '' '' @ division_sign @ '' '' @ num_to_string rt b @ '' = ''
                                  @ num_to_string rt (num_div rt a b))] None))
   \<and> calculator exact_integers w'
        [''operation'' \<mapsto> JStr ''multiply'', ''a'' \<mapsto> JNum (Integer 6), ''b'' \<mapsto> JNum (Integer 7)]
     = Inr (ToolResult [Text (''6 '' @ times_sign @ '' 7 = 42'')] None)"
proof -
  have add: "calculator_handler rt w (''add'', a, b)
     = Inr (ToolResult [Text (num_to_string rt a @ '' + '' @ num_to_string rt b @ '' = ''
                              @ num_to_string rt (num_add rt a b))] None)"
    by (simp add: calculator_handler_def calculator_switch_def)
  have subtract: "calculator_handler rt w (''subtract'', a, b)
     = Inr (ToolResult [Text (num_to_string rt a @ '' - '' @ num_to_string rt b @ '' = ''
                              @ num_to_string rt (num_sub rt a b))] None)"
    by (simp add: calculator_handler_def calculator_switch_def)
  have multiply: "calculator_handler rt w (''multiply'', a, b)
     = Inr (ToolResult [Text (num_to_string rt a @ '' '' @ times_sign @ '' '' @ num_to_string rt b @ '' = ''
                              @ num_to_string rt (num_mul rt a b))] None)"
    by (simp add: calculator_handler_def calculator_switch_def)
  have divide: "calculator_handler rt w (''divide'', a, b)
         = Inr (ToolResult [Text (num_to_string rt a @ '' '' @ division_sign @ '' '' @ num_to_string rt b @ '' = ''
                                  @ num_to_string rt (num_div rt a b))] None)" if "\<not> num_is_zero rt b"
    using that by (simp add: calculator_handler_def calculator_switch_def)
  have "calculator_schema [''operation'' \<mapsto> JStr ''multiply'', ''a'' \<mapsto> JNum (Integer 6), ''b'' \<mapsto> JNum (Integer 7)]
      = Inr (''multiply'', Integer 6, Integer 7)"
    by (rule calculator_schema_accepts) simp
  then have example: "calculator exact_integers w'
        [''operation'' \<mapsto> JStr ''multiply'', ''a'' \<mapsto> JNum (Integer 6), ''b'' \<mapsto> JNum (Integer 7)]
     = Inr (ToolResult [Text (''6 '' @ times_sign @ '' 7 = 42'')] None)"
    by (simp add: calculator_def call_Inr calculator_handler_def calculator_switch_def
        exact_integers_simps tracked_def decimal.simps digit_def)
  from add subtract multiply divide example show ?thesis by blast
qed

theorem calculator_text_witness:
  "\<not> num_is_zero exact_integers (Integer 2)
   \<and> calculator_handler exact_integers example_world (''divide'', Integer 84, Integer 2)
     = Inr (ToolResult [Text (''84 '' @ division_sign @ '' 2 = 42'')] None)
   \<and> calculator_handler exact_integers example_world (''multiply'', Integer 6, Integer 7)
     = Inr (ToolResult [Text (''6 '' @ times_sign @ '' 7 = 42'')] None)"
proof -
  have nonzero: "\<not> num_is_zero exact_integers (Integer 2)"
    by (simp add: exact_integers_simps)
  from calculator_text [of exact_integers example_world "Integer 84" "Integer 2" example_world] nonzero
  have divide: "calculator_handler exact_integers example_world (''divide'', Integer 84, Integer 2)
      = Inr (ToolResult [Text (''84 '' @ division_sign @ '' 2 = 42'')] None)"
    by (simp add: exact_integers_simps tracked_def decimal.simps digit_def)
  from calculator_text [of exact_integers example_world "Integer 6" "Integer 7" example_world]
  have multiply: "calculator_handler exact_integers example_world (''multiply'', Integer 6, Integer 7)
      = Inr (ToolResult [Text (''6 '' @ times_sign @ '' 7 = 42'')] None)"
    by (simp add: exact_integers_simps tracked_def decimal.simps digit_def)
  from nonzero divide multiply show ?thesis by blast
qed

section \<open>Properties of the time tool\<close>

subsection \<open>The calendar\<close>

lemma div_step:
  fixes x k :: int
  assumes "0 < k"
  shows "(x + 1) div k = x div k + (if (x + 1) mod k = 0 then 1 else 0)"
proof -
  define q where "q = x div k"
  define r where "r = x mod k"
  have x: "x = k * q + r" and r: "0 \<le> r" "r < k"
    using assms by (simp_all add: q_def r_def)
  show ?thesis
  proof (cases "r + 1 = k")
    case True
    then have e: "x + 1 = k * (q + 1)"
      using x by (simp add: algebra_simps)
    have "(x + 1) div k = q + 1" and "(x + 1) mod k = 0"
      unfolding e using assms by simp_all
    then show ?thesis by (simp add: q_def)
  next
    case False
    then have lt: "r + 1 < k" using r by simp
    have e: "x + 1 = k * q + (r + 1)" using x by simp
    have d: "(x + 1) div k = q"
      unfolding e using lt r assms by (simp add: div_pos_pos_trivial)
    have m: "(x + 1) mod k = r + 1"
      unfolding e using lt r assms by (simp add: mod_pos_pos_trivial)
    show ?thesis using d m r by (simp add: q_def)
  qed
qed

lemma mod_shift:
  fixes y :: int
  shows "(y - 1968) mod 4 = y mod 4" "(y - 1900) mod 100 = y mod 100" "(y - 1600) mod 400 = y mod 400"
proof -
  have "(y + 4 * (- 492)) mod 4 = y mod 4"
    by (rule mod_mult_self2)
  then show "(y - 1968) mod 4 = y mod 4" by simp
  have "(y + 100 * (- 19)) mod 100 = y mod 100"
    by (rule mod_mult_self2)
  then show "(y - 1900) mod 100 = y mod 100" by simp
  have "(y + 400 * (- 4)) mod 400 = y mod 400"
    by (rule mod_mult_self2)
  then show "(y - 1600) mod 400 = y mod 400" by simp
qed

lemma leap_divisors:
  fixes y :: int
  shows "y mod 100 = 0 \<Longrightarrow> y mod 4 = 0" "y mod 400 = 0 \<Longrightarrow> y mod 100 = 0"
proof -
  assume "y mod 100 = 0"
  then have "100 dvd y" by (simp add: dvd_eq_mod_eq_0)
  moreover have "(4::int) dvd 100" by simp
  ultimately have "4 dvd y" by (rule dvd_trans [rotated])
  then show "y mod 4 = 0" by (simp add: dvd_eq_mod_eq_0)
next
  assume "y mod 400 = 0"
  then have "400 dvd y" by (simp add: dvd_eq_mod_eq_0)
  moreover have "(100::int) dvd 400" by simp
  ultimately have "100 dvd y" by (rule dvd_trans [rotated])
  then show "y mod 100 = 0" by (simp add: dvd_eq_mod_eq_0)
qed

lemma DayFromYear_next:
  "DayFromYear (y + 1) = DayFromYear y + DaysInYear y"
proof -
  have four: "(y - 1968) div 4 = (y - 1969) div 4 + (if y mod 4 = 0 then 1 else 0)"
    using div_step [of 4 "y - 1969"] by (simp add: mod_shift)
  have hundred: "(y - 1900) div 100 = (y - 1901) div 100 + (if y mod 100 = 0 then 1 else 0)"
    using div_step [of 100 "y - 1901"] by (simp add: mod_shift)
  have four_hundred: "(y - 1600) div 400 = (y - 1601) div 400 + (if y mod 400 = 0 then 1 else 0)"
    using div_step [of 400 "y - 1601"] by (simp add: mod_shift)
  have "DayFromYear (y + 1) = 365 * (y - 1969) + (y - 1968) div 4 - (y - 1900) div 100 + (y - 1600) div 400"
    by (simp add: DayFromYear_def)
  also have "\<dots> = DayFromYear y + DaysInYear y"
    unfolding four hundred four_hundred
    using leap_divisors [of y]
    by (auto simp: DayFromYear_def DaysInYear_def)
  finally show ?thesis .
qed

lemma year_search_finds:
  "DayFromYear (year_search d y) \<le> d \<and> d < DayFromYear (year_search d y + 1)"
proof (induction d y rule: year_search.induct)
  case (1 d y)
  show ?case
  proof (cases "DayFromYear (y + 1) \<le> d")
    case True
    with "1.IH"(1) show ?thesis by (simp add: year_search.simps [of d y])
  next
    case up: False
    show ?thesis
    proof (cases "d < DayFromYear y")
      case True
      with up "1.IH"(2) show ?thesis by (simp add: year_search.simps [of d y])
    next
      case False
      with up show ?thesis by (simp add: year_search.simps [of d y])
    qed
  qed
qed

lemma DayWithinYear_range:
  "0 \<le> DayWithinYear t" "DayWithinYear t < 365 + InLeapYear t"
proof -
  let ?y = "YearFromTime t"
  have found: "DayFromYear ?y \<le> Day t \<and> Day t < DayFromYear (?y + 1)"
    unfolding YearFromTime_def by (rule year_search_finds)
  then show "0 \<le> DayWithinYear t"
    by (simp add: DayWithinYear_def)
  have "DaysInYear ?y = 365 + InLeapYear t"
    by (simp add: InLeapYear_def DaysInYear_def)
  with found show "DayWithinYear t < 365 + InLeapYear t"
    by (simp add: DayWithinYear_def DayFromYear_next)
qed

lemma InLeapYear_range: "InLeapYear t = 0 \<or> InLeapYear t = 1"
  by (simp add: InLeapYear_def)

lemma MonthFromTime_range: "0 \<le> MonthFromTime t" "MonthFromTime t \<le> 11"
  by (simp_all add: MonthFromTime_def Let_def)

lemma DaysInYear_abs: "DaysInYear \<bar>y\<bar> = DaysInYear y"
proof -
  have "(\<bar>y\<bar> mod k = 0) = (y mod k = 0)" for k :: int
    by (simp add: mod_eq_0_iff_dvd)
  then show ?thesis
    by (simp add: DaysInYear_def)
qed

lemma DateFromTime_range:
  "1 \<le> DateFromTime t"
  "nat (DateFromTime t) \<le> days_in_month (nat \<bar>YearFromTime t\<bar>) (nat (MonthFromTime t + 1))"
proof -
  define d where "d = DayWithinYear t"
  define leap where "leap = InLeapYear t"
  have d: "0 \<le> d" "d < 365 + leap" and leap: "0 \<le> leap" "leap \<le> 1"
    using DayWithinYear_range [of t] InLeapYear_range [of t] by (auto simp: d_def leap_def)
  have m: "MonthFromTime t =
     (if d < 31 then 0
         else if d < 59 + leap then 1
         else if d < 90 + leap then 2
         else if d < 120 + leap then 3
         else if d < 151 + leap then 4
         else if d < 181 + leap then 5
         else if d < 212 + leap then 6
         else if d < 243 + leap then 7
         else if d < 273 + leap then 8
         else if d < 304 + leap then 9
         else if d < 334 + leap then 10
         else 11)"
    by (simp add: MonthFromTime_def Let_def d_def leap_def)
  have leap_year: "(DaysInYear \<bar>YearFromTime t\<bar> = 366) = (leap = 1)"
    by (simp add: DaysInYear_abs leap_def InLeapYear_def)
  let ?ok = "1 \<le> DateFromTime t
    \<and> nat (DateFromTime t) \<le> days_in_month (nat \<bar>YearFromTime t\<bar>) (nat (MonthFromTime t + 1))"
  consider
    (january) "d < 31"
  | (february) "\<not> d < 31" "d < 59 + leap"
  | (march) "\<not> d < 59 + leap" "d < 90 + leap"
  | (april) "\<not> d < 90 + leap" "d < 120 + leap"
  | (may) "\<not> d < 120 + leap" "d < 151 + leap"
  | (june) "\<not> d < 151 + leap" "d < 181 + leap"
  | (july) "\<not> d < 181 + leap" "d < 212 + leap"
  | (august) "\<not> d < 212 + leap" "d < 243 + leap"
  | (september) "\<not> d < 243 + leap" "d < 273 + leap"
  | (october) "\<not> d < 273 + leap" "d < 304 + leap"
  | (november) "\<not> d < 304 + leap" "d < 334 + leap"
  | (december) "\<not> d < 334 + leap"
    by blast
  then have ?ok
  proof cases
    case january
    then have month: "MonthFromTime t = 0"
      using leap by (simp add: m)
    have date: "DateFromTime t = d + 1"
      by (simp add: DateFromTime_def Let_def month d_def leap_def)
    show ?thesis
      using january d leap by (simp add: date month days_in_month_def)
  next
    case february
    then have month: "MonthFromTime t = 1"
      using leap by (simp add: m)
    have date: "DateFromTime t = d - 30"
      by (simp add: DateFromTime_def Let_def month d_def leap_def)
    show ?thesis
      using february d leap by (auto simp: date month days_in_month_def leap_year)
  next
    case march
    then have month: "MonthFromTime t = 2"
      using leap by (simp add: m)
    have date: "DateFromTime t = d - 58 - leap"
      by (simp add: DateFromTime_def Let_def month d_def leap_def)
    show ?thesis
      using march d leap by (simp add: date month days_in_month_def)
  next
    case april
    then have month: "MonthFromTime t = 3"
      using leap by (simp add: m)
    have date: "DateFromTime t = d - 89 - leap"
      by (simp add: DateFromTime_def Let_def month d_def leap_def)
    show ?thesis
      using april d leap by (simp add: date month days_in_month_def)
  next
    case may
    then have month: "MonthFromTime t = 4"
      using leap by (simp add: m)
    have date: "DateFromTime t = d - 119 - leap"
      by (simp add: DateFromTime_def Let_def month d_def leap_def)
    show ?thesis
      using may d leap by (simp add: date month days_in_month_def)
  next
    case june
    then have month: "MonthFromTime t = 5"
      using leap by (simp add: m)
    have date: "DateFromTime t = d - 150 - leap"
      by (simp add: DateFromTime_def Let_def month d_def leap_def)
    show ?thesis
      using june d leap by (simp add: date month days_in_month_def)
  next
    case july
    then have month: "MonthFromTime t = 6"
      using leap by (simp add: m)
    have date: "DateFromTime t = d - 180 - leap"
      by (simp add: DateFromTime_def Let_def month d_def leap_def)
    show ?thesis
      using july d leap by (simp add: date month days_in_month_def)
  next
    case august
    then have month: "MonthFromTime t = 7"
      using leap by (simp add: m)
    have date: "DateFromTime t = d - 211 - leap"
      by (simp add: DateFromTime_def Let_def month d_def leap_def)
    show ?thesis
      using august d leap by (simp add: date month days_in_month_def)
  next
    case september
    then have month: "MonthFromTime t = 8"
      using leap by (simp add: m)
    have date: "DateFromTime t = d - 242 - leap"
      by (simp add: DateFromTime_def Let_def month d_def leap_def)
    show ?thesis
      using september d leap by (simp add: date month days_in_month_def)
  next
    case october
    then have month: "MonthFromTime t = 9"
      using leap by (simp add: m)
    have date: "DateFromTime t = d - 272 - leap"
      by (simp add: DateFromTime_def Let_def month d_def leap_def)
    show ?thesis
      using october d leap by (simp add: date month days_in_month_def)
  next
    case november
    then have month: "MonthFromTime t = 10"
      using leap by (simp add: m)
    have date: "DateFromTime t = d - 303 - leap"
      by (simp add: DateFromTime_def Let_def month d_def leap_def)
    show ?thesis
      using november d leap by (simp add: date month days_in_month_def)
  next
    case december
    then have month: "MonthFromTime t = 11"
      using leap by (simp add: m)
    have date: "DateFromTime t = d - 333 - leap"
      by (simp add: DateFromTime_def Let_def month d_def leap_def)
    show ?thesis
      using december d leap by (simp add: date month days_in_month_def)
  qed
  then show "1 \<le> DateFromTime t"
    and "nat (DateFromTime t) \<le> days_in_month (nat \<bar>YearFromTime t\<bar>) (nat (MonthFromTime t + 1))"
    by simp_all
qed

lemma time_fields_range:
  "0 \<le> HourFromTime t" "HourFromTime t \<le> 23"
  "0 \<le> MinFromTime t" "MinFromTime t \<le> 59"
  "0 \<le> SecFromTime t" "SecFromTime t \<le> 59"
  "0 \<le> msFromTime t" "msFromTime t \<le> 999"
proof -
  have "(t div 3600000) mod 24 < 24" "(t div 60000) mod 60 < 60" "(t div 1000) mod 60 < 60" "t mod 1000 < 1000"
    by (simp_all add: pos_mod_bound)
  then show "HourFromTime t \<le> 23" "MinFromTime t \<le> 59" "SecFromTime t \<le> 59" "msFromTime t \<le> 999"
    by (simp_all add: HourFromTime_def MinFromTime_def SecFromTime_def msFromTime_def)
  show "0 \<le> HourFromTime t" "0 \<le> MinFromTime t" "0 \<le> SecFromTime t" "0 \<le> msFromTime t"
    by (simp_all add: HourFromTime_def MinFromTime_def SecFromTime_def msFromTime_def)
qed

lemma Day_range:
  assumes "\<bar>t\<bar> \<le> 8640000000000000"
  shows "- 100000000 \<le> Day t" "Day t \<le> 100000000"
proof -
  have "(- 8640000000000000) div 86400000 \<le> t div (86400000::int)"
    using assms by (intro zdiv_mono1) simp_all
  then show "- 100000000 \<le> Day t"
    by (simp add: Day_def msPerDay_def)
  have "t div 86400000 \<le> 8640000000000000 div (86400000::int)"
    using assms by (intro zdiv_mono1) simp_all
  then show "Day t \<le> 100000000"
    by (simp add: Day_def msPerDay_def)
qed

lemma DayFromYear_linear:
  "146097 * y - 287812000 \<le> 400 * DayFromYear y" "400 * DayFromYear y \<le> 146097 * y - 287810000"
proof -
  define a where "a = (y - 1969) div 4"
  define b where "b = (y - 1901) div 100"
  define c where "c = (y - 1601) div 400"
  have four: "4 * a \<le> y - 1969" "y - 1969 \<le> 4 * a + 3"
    using pos_mod_sign [of 4 "y - 1969"] pos_mod_bound [of 4 "y - 1969"]
    by (simp_all add: a_def minus_mod_eq_mult_div [symmetric])
  have hundred: "100 * b \<le> y - 1901" "y - 1901 \<le> 100 * b + 99"
    using pos_mod_sign [of 100 "y - 1901"] pos_mod_bound [of 100 "y - 1901"]
    by (simp_all add: b_def minus_mod_eq_mult_div [symmetric])
  have four_hundred: "400 * c \<le> y - 1601" "y - 1601 \<le> 400 * c + 399"
    using pos_mod_sign [of 400 "y - 1601"] pos_mod_bound [of 400 "y - 1601"]
    by (simp_all add: c_def minus_mod_eq_mult_div [symmetric])
  have days: "DayFromYear y = 365 * (y - 1970) + a - b + c"
    by (simp add: DayFromYear_def a_def b_def c_def)
  have "100 * y - 197200 \<le> 400 * a" "400 * b \<le> 4 * y - 7604" "y - 2000 \<le> 400 * c"
    using four(2) hundred(1) four_hundred(2) by simp_all
  then show "146097 * y - 287812000 \<le> 400 * DayFromYear y"
    unfolding days by simp
  have "400 * a \<le> 100 * y - 196900" "4 * y - 8000 \<le> 400 * b" "400 * c \<le> y - 1601"
    using four(1) hundred(2) four_hundred(1) by simp_all
  then show "400 * DayFromYear y \<le> 146097 * y - 287810000"
    unfolding days by simp
qed

lemma YearFromTime_range:
  assumes "\<bar>t\<bar> \<le> 8640000000000000"
  shows "- 999999 \<le> YearFromTime t" "YearFromTime t \<le> 999999"
proof -
  let ?y = "YearFromTime t"
  have found: "DayFromYear ?y \<le> Day t" "Day t < DayFromYear (?y + 1)"
    unfolding YearFromTime_def using year_search_finds by blast+
  have "400 * DayFromYear ?y \<le> 40000000000"
    using found(1) Day_range(2) [OF assms] by simp
  then have "146097 * ?y - 287812000 \<le> 40000000000"
    using DayFromYear_linear(1) [of ?y] by simp
  then have "146097 * ?y < 146097 * 1000000"
    by simp
  then have "?y < 1000000"
    by (simp only: mult_less_cancel_left_pos)
  then show "?y \<le> 999999"
    by simp
  have "- 40000000000 < 400 * DayFromYear (?y + 1)"
    using found(2) Day_range(1) [OF assms] by simp
  then have "- 40000000000 < 146097 * (?y + 1) - 287810000"
    using DayFromYear_linear(2) [of "?y + 1"] by simp
  then have "146097 * (- 1000000) < 146097 * ?y"
    by simp
  then have "- 1000000 < ?y"
    by (simp only: mult_less_cancel_left_pos)
  then show "- 999999 \<le> ?y"
    by simp
qed

subsection \<open>Digits\<close>

lemma below_ten:
  fixes k :: nat
  assumes "k < 10"
  shows "k = 0 \<or> k = 1 \<or> k = 2 \<or> k = 3 \<or> k = 4 \<or> k = 5 \<or> k = 6 \<or> k = 7 \<or> k = 8 \<or> k = 9"
  using assms by presburger

lemma digit_cases:
  "is_digit (digit n) \<and> digit_value (digit n) = n mod 10"
proof -
  define k where "k = n mod 10"
  have "k < 10" by (simp add: k_def)
  then have "k = 0 \<or> k = 1 \<or> k = 2 \<or> k = 3 \<or> k = 4 \<or> k = 5 \<or> k = 6 \<or> k = 7 \<or> k = 8 \<or> k = 9"
    by (rule below_ten)
  then have "is_digit (''0123456789'' ! k) \<and> digit_value (''0123456789'' ! k) = k"
    by (elim disjE) (simp_all add: is_digit_def digit_value_def)
  then show ?thesis
    by (simp add: digit_def k_def)
qed

lemma digit_is_digit: "is_digit (digit n)"
  by (simp add: digit_cases)

lemma digit_value_digit: "digit_value (digit n) = n mod 10"
  by (simp add: digit_cases)

lemma div_tens:
  fixes n :: nat
  shows "n div 10 div 10 = n div 100" "n div 100 div 10 = n div 1000"
    "n div 1000 div 10 = n div 10000" "n div 10000 div 10 = n div 100000"
  using div_mult2_eq [of n 10 10] div_mult2_eq [of n 100 10] div_mult2_eq [of n 1000 10]
    div_mult2_eq [of n 10000 10]
  by simp_all

lemma pad_digits:
  "pad 2 n = [digit (n div 10), digit n]"
  "pad 3 n = [digit (n div 100), digit (n div 10), digit n]"
  "pad 4 n = [digit (n div 1000), digit (n div 100), digit (n div 10), digit n]"
  "pad 6 n = [digit (n div 100000), digit (n div 10000), digit (n div 1000), digit (n div 100),
              digit (n div 10), digit n]"
proof -
  have two: "(2::nat) = Suc (Suc 0)" and three: "(3::nat) = Suc (Suc (Suc 0))"
    and four: "(4::nat) = Suc (Suc (Suc (Suc 0)))"
    and six: "(6::nat) = Suc (Suc (Suc (Suc (Suc (Suc 0)))))"
    by simp_all
  show "pad 2 n = [digit (n div 10), digit n]"
    unfolding two by simp
  show "pad 3 n = [digit (n div 100), digit (n div 10), digit n]"
    unfolding three by (simp add: div_tens)
  show "pad 4 n = [digit (n div 1000), digit (n div 100), digit (n div 10), digit n]"
    unfolding four by (simp add: div_tens)
  show "pad 6 n = [digit (n div 100000), digit (n div 10000), digit (n div 1000), digit (n div 100),
              digit (n div 10), digit n]"
    unfolding six by (simp add: div_tens)
qed

lemma number_of_snoc: "number_of (s @ [digit m]) = 10 * number_of s + m mod 10"
  by (simp add: number_of_def digit_value_digit)

lemma number_of_pad: "number_of (pad k n) = n mod 10 ^ k"
proof (induction k arbitrary: n)
  case 0
  show ?case by (simp add: number_of_def)
next
  case (Suc k)
  have "number_of (pad (Suc k) n) = 10 * (n div 10 mod 10 ^ k) + n mod 10"
    by (simp add: number_of_snoc Suc.IH)
  also have "\<dots> = n mod (10 * 10 ^ k)"
    by (simp add: mod_mult2_eq)
  finally show ?case by simp
qed

lemma number_of_digits:
  "n < 100 \<Longrightarrow> number_of [digit (n div 10), digit n] = n"
  "n < 10000 \<Longrightarrow> number_of [digit (n div 1000), digit (n div 100), digit (n div 10), digit n] = n"
  "n < 1000000 \<Longrightarrow> number_of [digit (n div 100000), digit (n div 10000), digit (n div 1000), digit (n div 100),
              digit (n div 10), digit n] = n"
  using number_of_pad [of 2 n] number_of_pad [of 4 n] number_of_pad [of 6 n]
  by (simp_all add: pad_digits)

subsection \<open>Rendered timestamps are well formed\<close>

lemma days_in_month_le: "days_in_month year month \<le> 31"
  by (simp add: days_in_month_def)

lemma date_time_ok_fields:
  assumes "1 \<le> M" "M \<le> 12" "1 \<le> D" "D \<le> days_in_month Y M" "h \<le> 23" "mi \<le> 59" "s \<le> 59"
  shows "date_time_ok Y (''-'' @ pad 2 M @ ''-'' @ pad 2 D @ ''T'' @ pad 2 h @ '':'' @ pad 2 mi
           @ '':'' @ pad 2 s @ ''.'' @ pad 3 ms @ ''Z'')"
proof -
  have small: "M < 100" "D < 100" "h < 100" "mi < 100" "s < 100"
    using assms days_in_month_le [of Y M] by simp_all
  show ?thesis
    using assms
    by (simp add: date_time_ok_def between_def pad_digits digit_is_digit number_of_digits(1) [OF small(1)]
        number_of_digits(1) [OF small(2)] number_of_digits(1) [OF small(3)]
        number_of_digits(1) [OF small(4)] number_of_digits(1) [OF small(5)])
qed

lemma not_digit_sign: "\<not> is_digit CHR ''+''" "\<not> is_digit CHR ''-''"
  by (simp_all add: is_digit_def)

lemma iso8601_utc_year:
  assumes "- 999999 \<le> y" "y \<le> 999999" and "date_time_ok (nat \<bar>y\<bar>) rest"
  shows "iso8601_utc (year_string y @ rest)"
proof -
  consider (four) "0 \<le> y" "y \<le> 9999" | (plus) "9999 < y" | (minus) "y < 0"
    by linarith
  then show ?thesis
  proof cases
    case four
    then have "nat y < 10000" by simp
    then have "number_of [digit (nat y div 1000), digit (nat y div 100), digit (nat y div 10), digit (nat y)] = nat y"
      by (rule number_of_digits(2))
    with four assms(3) show ?thesis
      by (simp add: iso8601_utc_def year_string_def pad_digits digit_is_digit)
  next
    case plus
    with assms have "nat \<bar>y\<bar> < 1000000" by simp
    then have "number_of [digit (nat \<bar>y\<bar> div 100000), digit (nat \<bar>y\<bar> div 10000), digit (nat \<bar>y\<bar> div 1000),
        digit (nat \<bar>y\<bar> div 100), digit (nat \<bar>y\<bar> div 10), digit (nat \<bar>y\<bar>)] = nat \<bar>y\<bar>"
      by (rule number_of_digits(3))
    with plus assms(3) show ?thesis
      by (simp add: iso8601_utc_def year_string_def pad_digits digit_is_digit between_def not_digit_sign)
  next
    case minus
    with assms have "nat \<bar>y\<bar> < 1000000" by simp
    then have "number_of [digit (nat \<bar>y\<bar> div 100000), digit (nat \<bar>y\<bar> div 10000), digit (nat \<bar>y\<bar> div 1000),
        digit (nat \<bar>y\<bar> div 100), digit (nat \<bar>y\<bar> div 10), digit (nat \<bar>y\<bar>)] = nat \<bar>y\<bar>"
      by (rule number_of_digits(3))
    with minus assms(3) show ?thesis
      by (simp add: iso8601_utc_def year_string_def pad_digits digit_is_digit between_def not_digit_sign)
  qed
qed

lemma toISOString_valid:
  assumes "\<bar>t\<bar> \<le> 8640000000000000"
  shows "\<exists>ts. toISOString t = Inr ts \<and> iso8601_utc ts"
proof -
  let ?rest = "''-'' @ pad 2 (nat (MonthFromTime t + 1)) @ ''-'' @ pad 2 (nat (DateFromTime t))
      @ ''T'' @ pad 2 (nat (HourFromTime t)) @ '':'' @ pad 2 (nat (MinFromTime t))
      @ '':'' @ pad 2 (nat (SecFromTime t)) @ ''.'' @ pad 3 (nat (msFromTime t)) @ ''Z''"
  have rendered: "toISOString t = Inr (year_string (YearFromTime t) @ ?rest)"
    using assms by (simp add: toISOString_def)
  have "date_time_ok (nat \<bar>YearFromTime t\<bar>) ?rest"
  proof (rule date_time_ok_fields)
    show "1 \<le> nat (MonthFromTime t + 1)" "nat (MonthFromTime t + 1) \<le> 12"
      using MonthFromTime_range [of t] by simp_all
    show "1 \<le> nat (DateFromTime t)"
      using DateFromTime_range(1) [of t] by simp
    show "nat (DateFromTime t) \<le> days_in_month (nat \<bar>YearFromTime t\<bar>) (nat (MonthFromTime t + 1))"
      by (rule DateFromTime_range(2))
    show "nat (HourFromTime t) \<le> 23" "nat (MinFromTime t) \<le> 59" "nat (SecFromTime t) \<le> 59"
      using time_fields_range [of t] by simp_all
  qed
  then have "iso8601_utc (year_string (YearFromTime t) @ ?rest)"
    using YearFromTime_range [OF assms] by (intro iso8601_utc_year)
  with rendered show ?thesis by blast
qed

lemma toISOString_example:
  "toISOString 1758797696789 = Inr ''2025-09-25T10:54:56.789Z''"
  "toISOString 0 = Inr ''1970-01-01T00:00:00.000Z''"
  by (simp_all add: toISOString_def year_string_def YearFromTime_def Day_def msPerDay_def
      year_search.simps DayFromYear_def MonthFromTime_def DateFromTime_def DayWithinYear_def
      InLeapYear_def DaysInYear_def HourFromTime_def MinFromTime_def SecFromTime_def msFromTime_def
      pad_digits digit_def)

lemma get_time_schema_iso:
  "get_time_schema [''format'' \<mapsto> JStr ''iso''] = Inr (None, ''iso'')"
  "get_time_schema [''timeZone'' \<mapsto> JStr tz, ''format'' \<mapsto> JStr ''iso''] = Inr (Some tz, ''iso'')"
  by (simp_all add: get_time_schema_def Let_def z_optional_def z_string_def z_default_def z_enum_def)

subsection \<open>The \<open>iso\<close> format\<close>

text \<open>
  C5. For every call of the time tool with the format \<open>iso\<close>, at a time value a clock
  can give, there is one timestamp, a well-formed ISO 8601 date and time in UTC, that is
  the rendered time string whatever time zone is supplied, none included, and whatever the
  localised renderings of the runtime are. The handler succeeds and returns it after the
  label and the time zone annotation, also through the call.
\<close>

theorem get_time_iso:
  assumes "\<bar>clock w\<bar> \<le> 8640000000000000"
  shows "\<exists>ts. iso8601_utc ts
    \<and> (\<forall>rt timeZone.
          time_string rt (clock w) timeZone ''iso'' = Inr ts
          \<and> get_time_handler rt w (timeZone, ''iso'')
              = Inr (ToolResult [Text (current_time @ time_zone_info timeZone @ '': '' @ ts)] None))
    \<and> (\<forall>rt. get_time rt w [''format'' \<mapsto> JStr ''iso'']
              = Inr (ToolResult [Text (current_time @ time_zone_info None @ '': '' @ ts)] None))
    \<and> (\<forall>rt tz. get_time rt w [''timeZone'' \<mapsto> JStr tz, ''format'' \<mapsto> JStr ''iso'']
              = Inr (ToolResult [Text (current_time @ time_zone_info (Some tz) @ '': '' @ ts)] None))"
proof -
  from toISOString_valid [OF assms] obtain ts
    where rendered: "toISOString (clock w) = Inr ts" and valid: "iso8601_utc ts"
    by blast
  have string: "time_string rt (clock w) timeZone ''iso'' = Inr ts" for rt timeZone
    by (simp add: time_string_def rendered)
  have handler: "get_time_handler rt w (timeZone, ''iso'')
      = Inr (ToolResult [Text (current_time @ time_zone_info timeZone @ '': '' @ ts)] None)" for rt timeZone
    by (simp add: get_time_handler_def string)
  have absent: "get_time rt w [''format'' \<mapsto> JStr ''iso'']
      = Inr (ToolResult [Text (current_time @ time_zone_info None @ '': '' @ ts)] None)" for rt
    by (simp add: get_time_def call_def get_time_schema_iso(1) handler)
  have supplied: "get_time rt w [''timeZone'' \<mapsto> JStr tz, ''format'' \<mapsto> JStr ''iso'']
      = Inr (ToolResult [Text (current_time @ time_zone_info (Some tz) @ '': '' @ ts)] None)" for rt tz
    by (simp add: get_time_def call_def get_time_schema_iso(2) handler)
  from valid string handler absent supplied show ?thesis
    by blast
qed

theorem get_time_iso_witness:
  "\<bar>clock example_world\<bar> \<le> 8640000000000000
   \<and> iso8601_utc ''2025-09-25T10:54:56.789Z''
   \<and> time_string example_intl (clock example_world) None ''iso'' = Inr ''2025-09-25T10:54:56.789Z''
   \<and> time_string example_intl (clock example_world) (Some ''Asia/Seoul'') ''iso''
       = Inr ''2025-09-25T10:54:56.789Z''"
proof -
  have range: "\<bar>clock example_world\<bar> \<le> 8640000000000000"
    by (simp add: example_world_simps)
  from get_time_iso [OF range] obtain ts
    where valid: "iso8601_utc ts"
      and string: "\<And>timeZone. time_string example_intl (clock example_world) timeZone ''iso'' = Inr ts"
    by blast
  have "time_string example_intl (clock example_world) None ''iso'' = Inr ''2025-09-25T10:54:56.789Z''"
    by (simp add: time_string_def example_world_simps toISOString_example)
  with string [of None] have "ts = ''2025-09-25T10:54:56.789Z''"
    by simp
  with range valid string show ?thesis
    by simp
qed

text \<open>
  The time tool, unlike the tools of C10, depends on the state of the process: the same
  call at two readings of the clock returns two texts.
\<close>

lemma get_time_reads_the_clock:
  "get_time_handler rt (example_world\<lparr>clock := 0\<rparr>) (None, ''iso'')
     \<noteq> get_time_handler rt example_world (None, ''iso'')"
  by (simp add: get_time_handler_def time_string_def example_world_simps toISOString_example)

section \<open>Properties of the image generation tool\<close>

lemma generate_image_unset:
  "HF_TOKEN w = None \<Longrightarrow> generate_image_try w prompt = Inl (Error msg_token_not_set)"
  by (simp add: generate_image_try_def)

lemma generate_image_service_failure:
  "HF_TOKEN w = Some token \<Longrightarrow> token \<noteq> [] \<Longrightarrow>
   textToImage w token
     \<lparr>provider = ''fal-ai'', model = ''black-forest-labs/FLUX.1-schnell'', inputs = prompt,
      num_inference_steps = 5\<rparr> = Inl failure \<Longrightarrow>
   generate_image_try w prompt = Inl failure"
  by (simp add: generate_image_try_def)

text \<open>
  C2, as the specification states it, fails. With \<open>HF_TOKEN\<close> unset the handler does not
  fail with the missing-credential error itself: the check stands inside the \<open>try\<close>
  block, so its error is caught and replaced by the error the \<open>catch\<close> block builds for
  every failure. The outcome is the one of a call with a token whose request to the
  inference service fails with the same message, so it is no failure of a kind of its own.
\<close>

theorem generate_image_config_error_counterexample:
  "HF_TOKEN example_world = None
   \<and> generate_image_handler example_world ''a cat'' \<noteq> Inl (Error msg_token_not_set)
   \<and> generate_image_handler example_world ''a cat''
       = Inl (Error (msg_generation_failed @ '': '' @ msg_token_not_set))
   \<and> generate_image_handler example_world ''a cat''
       = generate_image_handler example_world_rejected ''a cat''"
proof -
  have unset: "HF_TOKEN example_world = None"
    by (simp add: example_world_simps)
  have wrapped: "generate_image_handler example_world ''a cat''
      = Inl (Error (msg_generation_failed @ '': '' @ msg_token_not_set))"
    by (simp add: generate_image_handler_def generate_image_unset [OF unset] generate_image_catch_def)
  have "msg_generation_failed @ '': '' @ msg_token_not_set \<noteq> msg_token_not_set"
    by (simp add: msg_generation_failed_def msg_token_not_set_def)
  with wrapped have other: "generate_image_handler example_world ''a cat'' \<noteq> Inl (Error msg_token_not_set)"
    by simp
  have service: "generate_image_handler example_world_rejected ''a cat''
      = Inl (Error (msg_generation_failed @ '': '' @ msg_token_not_set))"
    by (simp add: generate_image_handler_def generate_image_try_def generate_image_catch_def
        example_world_rejected_def example_world_with_token_def example_world_def)
  from unset other wrapped service show ?thesis
    by simp
qed

text \<open>
  C2, amended. For every prompt, when \<open>HF_TOKEN\<close> is unset, the handler fails with the
  one error of its \<open>catch\<close> block, whose message is the fixed opening of a failed
  generation followed by the missing-credential message; the outcome depends neither on
  the prompt nor on the inference service, which is not called.
\<close>

theorem generate_image_token_unset:
  assumes "HF_TOKEN w = None"
  shows "generate_image_handler w prompt
      = Inl (Error (msg_generation_failed @ '': '' @ msg_token_not_set))
    \<and> generate_image_handler w prompt = generate_image_handler (w\<lparr>textToImage := service\<rparr>) prompt'"
  using assms
  by (simp add: generate_image_handler_def generate_image_unset generate_image_catch_def)

theorem generate_image_token_unset_witness:
  "HF_TOKEN example_world = None
   \<and> generate_image_handler example_world ''a cat''
      = Inl (Error (msg_generation_failed @ '': '' @ msg_token_not_set))"
proof -
  have unset: "HF_TOKEN example_world = None"
    by (simp add: example_world_simps)
  from generate_image_token_unset [OF unset, of "''a cat''"] unset
  show ?thesis by blast
qed

text \<open>
  C7. For every prompt, when a token is set and the call to the inference service fails,
  the handler fails with one error, built by its \<open>catch\<close> block: the message is the
  fixed opening of a failed generation followed by the message of the underlying failure
  when that failure is an \<open>Error\<close>, and by a fixed text when the thrown value is no
  \<open>Error\<close> and so carries no message. The failure is a result of the handler, which the
  call hands on as the failure of the call; nothing ends the process.
\<close>

theorem generate_image_wraps_failure:
  assumes "HF_TOKEN w = Some token" and "token \<noteq> []"
    and "textToImage w token
           \<lparr>provider = ''fal-ai'', model = ''black-forest-labs/FLUX.1-schnell'', inputs = prompt,
            num_inference_steps = 5\<rparr> = Inl failure"
  shows "(\<forall>message. failure = Error message \<longrightarrow>
            generate_image_handler w prompt = Inl (Error (msg_generation_failed @ '': '' @ message)))
    \<and> (failure = NonError \<longrightarrow>
            generate_image_handler w prompt = Inl (Error (msg_generation_failed @ '': '' @ msg_unknown_error)))
    \<and> (\<exists>message. generate_image w [''prompt'' \<mapsto> JStr prompt]
            = Inl (Thrown (Error (msg_generation_failed @ '': '' @ message))))"
proof -
  have handler: "generate_image_handler w prompt = Inl (generate_image_catch failure)"
    using generate_image_service_failure [OF assms]
    by (simp add: generate_image_handler_def)
  have schema: "generate_image_schema [''prompt'' \<mapsto> JStr prompt] = Inr prompt"
    by (simp add: generate_image_schema_def z_string_def)
  have "generate_image w [''prompt'' \<mapsto> JStr prompt] = Inl (Thrown (generate_image_catch failure))"
    by (simp add: generate_image_def call_def schema handler)
  then have through: "\<exists>message. generate_image w [''prompt'' \<mapsto> JStr prompt]
      = Inl (Thrown (Error (msg_generation_failed @ '': '' @ message)))"
    by (simp add: generate_image_catch_def)
  from handler through show ?thesis
    by (simp add: generate_image_catch_def)
qed

theorem generate_image_wraps_failure_witness:
  "HF_TOKEN example_world_with_token = Some ''hf_example''
   \<and> textToImage example_world_with_token ''hf_example''
        \<lparr>provider = ''fal-ai'', model = ''black-forest-labs/FLUX.1-schnell'', inputs = ''a cat'',
         num_inference_steps = 5\<rparr> = Inl (Error ''fetch failed'')
   \<and> generate_image_handler example_world_with_token ''a cat''
      = Inl (Error (msg_generation_failed @ '': fetch failed''))"
proof -
  have token: "HF_TOKEN example_world_with_token = Some ''hf_example''"
    and nonempty: "''hf_example'' \<noteq> []"
    and fails: "textToImage example_world_with_token ''hf_example''
        \<lparr>provider = ''fal-ai'', model = ''black-forest-labs/FLUX.1-schnell'', inputs = ''a cat'',
         num_inference_steps = 5\<rparr> = Inl (Error ''fetch failed'')"
    by (simp_all add: example_world_simps)
  from generate_image_wraps_failure [OF token nonempty fails] token fails
  show ?thesis by simp
qed

section \<open>Properties of the server information resource\<close>

lemma load_index_ts:
  "load index_ts =
     Inr \<lparr>tools = [''greeting'', ''calculator'', ''get_time''],
          resources = [(''server://info'', ''server://info'', info_metadata)],
          prompts = [''code_review'']\<rparr>"
  by (simp add: load_def index_ts_def McpServer_def server_tool_def server_resource_def server_prompt_def)

lemma load_part_000:
  "load part_000 =
     Inr \<lparr>tools = [''greeting'', ''calculator'', ''get_time'', ''generate_image''],
          resources = [(''server://info'', ''server://info'', info_metadata)],
          prompts = [''code_review'']\<rparr>"
  by (simp add: load_def part_000_def McpServer_def server_tool_def server_resource_def server_prompt_def)

lemma listed_by_serverInfo:
  "listed_tools (serverInfo w timestamp) = [''greeting'', ''calculator'', ''get_time'']"
  "listed_resources (serverInfo w timestamp) = [''server://info'']"
  by (simp_all add: listed_tools_def listed_resources_def serverInfo_def names_of_def)

lemma server_info_index_ts:
  "set (listed_tools (serverInfo w timestamp)) = set (registered_tools (load index_ts))"
  "set (listed_resources (serverInfo w timestamp)) = set (registered_resources (load index_ts))"
  by (simp_all add: listed_by_serverInfo load_index_ts registered_tools_def registered_resources_def)

text \<open>
  C1. The description the resource returns lists the tools \<open>greeting\<close>, \<open>calculator\<close>
  and \<open>get_time\<close> and the resource \<open>server://info\<close>, whatever the process and the
  time. On the module that registers the image generation tool, the registered tool
  \<open>generate_image\<close> is therefore missing from the listing, while the registered
  resources and the listed ones agree.
\<close>

theorem server_info_omits_generate_image:
  "registered_tools (load part_000) = [''greeting'', ''calculator'', ''get_time'', ''generate_image'']
   \<and> listed_tools (serverInfo w timestamp) = [''greeting'', ''calculator'', ''get_time'']
   \<and> ''generate_image'' \<in> set (registered_tools (load part_000))
   \<and> ''generate_image'' \<notin> set (listed_tools (serverInfo w timestamp))
   \<and> set (listed_resources (serverInfo w timestamp)) = set (registered_resources (load part_000))"
proof -
  have registered: "registered_tools (load part_000)
      = [''greeting'', ''calculator'', ''get_time'', ''generate_image'']"
    by (simp add: load_part_000 registered_tools_def)
  have listed: "listed_tools (serverInfo w timestamp) = [''greeting'', ''calculator'', ''get_time'']"
    by (rule listed_by_serverInfo)
  have present: "''generate_image'' \<in> set (registered_tools (load part_000))"
    unfolding registered by simp
  have missing: "''generate_image'' \<notin> set (listed_tools (serverInfo w timestamp))"
    unfolding listed by simp
  have resources: "set (listed_resources (serverInfo w timestamp)) = set (registered_resources (load part_000))"
    by (simp add: listed_by_serverInfo load_part_000 registered_resources_def)
  from registered listed present missing resources show ?thesis
    by (intro conjI)
qed

section \<open>Properties of the code review prompt\<close>

lemma code_review_omitted:
  "code_review w (args(''focus'' := None)) = code_review w (args(''focus'' \<mapsto> JStr ''all''))"
  by (simp add: code_review_def call_def code_review_schema_def Let_def z_optional_def z_enum_def
      code_review_handler_def focus_or_all_def split: option.splits)

text \<open>
  C8. For every code, every language (or none) and every focus (or none), the prompt
  handler returns exactly one message, of role \<open>user\<close>, whose text is an opening line
  followed by the code, unchanged, between two fence lines (the first one carrying the
  language) and by the fixed rubric of six numbered items with its closing request. An
  absent focus gives what the focus \<open>all\<close> gives, at the handler and through the call.
\<close>

theorem code_review_message:
  "(\<exists>intro. code_review_handler w (code, language, focus)
      = Inr [Message ''user'' (Text (intro
               @ ''```'' @ language_or_empty language @ ''\<newline>'' @ code @ ''\<newline>```\<newline>\<newline>''
               @ rubric_heading @ ''\<newline>''
               @ rubric_quality @ ''\<newline>'' @ rubric_performance @ ''\<newline>''
               @ rubric_security @ ''\<newline>'' @ rubric_style @ ''\<newline>''
               @ rubric_suggestions @ ''\<newline>'' @ rubric_best_practices @ ''\<newline>\<newline>''
               @ rubric_closing))])
   \<and> code_review_handler w (code, language, None) = code_review_handler w (code, language, Some ''all'')
   \<and> code_review w (args(''focus'' := None)) = code_review w (args(''focus'' \<mapsto> JStr ''all''))"
proof -
  let ?intro = "review_following @ languageInfo language @ review_request
      @ focusInfo (focus_or_all focus) @ '':\<newline>\<newline>''"
  have message: "\<exists>intro. code_review_handler w (code, language, focus)
      = Inr [Message ''user'' (Text (intro
               @ ''```'' @ language_or_empty language @ ''\<newline>'' @ code @ ''\<newline>```\<newline>\<newline>''
               @ rubric_heading @ ''\<newline>''
               @ rubric_quality @ ''\<newline>'' @ rubric_performance @ ''\<newline>''
               @ rubric_security @ ''\<newline>'' @ rubric_style @ ''\<newline>''
               @ rubric_suggestions @ ''\<newline>'' @ rubric_best_practices @ ''\<newline>\<newline>''
               @ rubric_closing))]"
  proof (rule exI)
    show "code_review_handler w (code, language, focus)
      = Inr [Message ''user'' (Text (?intro
               @ ''```'' @ language_or_empty language @ ''\<newline>'' @ code @ ''\<newline>```\<newline>\<newline>''
               @ rubric_heading @ ''\<newline>''
               @ rubric_quality @ ''\<newline>'' @ rubric_performance @ ''\<newline>''
               @ rubric_security @ ''\<newline>'' @ rubric_style @ ''\<newline>''
               @ rubric_suggestions @ ''\<newline>'' @ rubric_best_practices @ ''\<newline>\<newline>''
               @ rubric_closing))]"
      by (simp add: code_review_handler_def reviewPrompt_def)
  qed
  have absent: "code_review_handler w (code, language, None) = code_review_handler w (code, language, Some ''all'')"
    by (simp add: code_review_handler_def focus_or_all_def)
  show ?thesis
    by (rule conjI [OF message conjI [OF absent code_review_omitted]])
qed

section \<open>Determinism\<close>

text \<open>
  C10. The greeting, calculator and code review handlers return the same result for the
  same arguments in every state of the process: whatever the clock, the environment, the
  inference service and the figures of the process are, and so whatever happened before
  the call. This holds at the handlers and through the calls.
\<close>

theorem handlers_deterministic:
  "greeting_handler w g = greeting_handler w' g
   \<and> calculator_handler rt w c = calculator_handler rt w' c
   \<and> code_review_handler w r = code_review_handler w' r
   \<and> greeting w args = greeting w' args
   \<and> calculator rt w args = calculator rt w' args
   \<and> code_review w args = code_review w' args"
proof -
  have g: "greeting_handler w = greeting_handler w'"
    by (simp add: greeting_handler_def)
  have c: "calculator_handler rt w = calculator_handler rt w'"
    by (simp add: calculator_handler_def)
  have r: "code_review_handler w = code_review_handler w'"
    by (simp add: code_review_handler_def)
  show ?thesis
    by (simp add: greeting_def calculator_def code_review_def g c r)
qed

end
